theory Spec2Isabelle
  imports Complex_Main "HOL-Library.Char_ord" "HOL-Library.Log_Nat"
begin

section \<open>ReadScore analyzer: a shallow embedding of \<^verbatim>\<open>src/analyzer.js\<close>\<close>

text \<open>
  The analyzer is a single JavaScript object \<^verbatim>\<open>ReadScoreAnalyzer\<close> of pure functions over
  strings, arrays of strings and numbers. Each function is translated below under its own
  name. Three things of the JavaScript run time are made explicit first: strings and their
  methods, regular expressions, and double precision numbers.
\<close>

subsection \<open>Characters and string methods\<close>

text \<open>
  A text is a list of 8-bit characters: the strings whose code units lie in
  \<^verbatim>\<open>U+0000..U+00FF\<close>. The character classes are those of ECMAScript restricted to this
  range: \<^verbatim>\<open>\s\<close> is TAB, LF, VT, FF, CR, SPACE and NBSP; \<^verbatim>\<open>\w\<close> is
  \<^verbatim>\<open>[A-Za-z0-9_]\<close>; \<^verbatim>\<open>\d\<close> is \<^verbatim>\<open>[0-9]\<close>.
\<close>

definition isSpace :: "char \<Rightarrow> bool" where
  "isSpace c = ((CHR 0x09 \<le> c \<and> c \<le> CHR 0x0D) \<or> c = CHR '' '' \<or> c = CHR 0xA0)"

definition isDigit :: "char \<Rightarrow> bool" where
  "isDigit c = (CHR ''0'' \<le> c \<and> c \<le> CHR ''9'')"

definition isUpperAZ :: "char \<Rightarrow> bool" where
  "isUpperAZ c = (CHR ''A'' \<le> c \<and> c \<le> CHR ''Z'')"

definition isLowerAZ :: "char \<Rightarrow> bool" where
  "isLowerAZ c = (CHR ''a'' \<le> c \<and> c \<le> CHR ''z'')"

definition isAlpha :: "char \<Rightarrow> bool" where
  "isAlpha c = (isUpperAZ c \<or> isLowerAZ c)"

definition isWordChar :: "char \<Rightarrow> bool" where
  "isWordChar c = (isAlpha c \<or> isDigit c \<or> c = CHR ''_'')"

definition isLineTerminator :: "char \<Rightarrow> bool" where
  "isLineTerminator c = (c = CHR 0x0A \<or> c = CHR 0x0D)"

text \<open>
  Case mapping in the Latin-1 range: \<^verbatim>\<open>A-Z\<close> and \<^verbatim>\<open>U+00C0..U+00DE\<close> (without the
  multiplication sign \<^verbatim>\<open>U+00D7\<close>) have a lower case 32 code points higher, that is, with
  bit 5 set. The upper case of \<^verbatim>\<open>U+00DF\<close>, \<^verbatim>\<open>U+00B5\<close> and \<^verbatim>\<open>U+00FF\<close> lies outside the
  range (or is two letters), and \<open>toUpperChar\<close> leaves them alone. It is used to compare
  characters under the flag \<^verbatim>\<open>i\<close>, where these three are equal to themselves only, and
  to look a level up in a table whose keys are made of \<^verbatim>\<open>A-Z\<close>, which no upper case of
  a text with one of the three is.
\<close>

definition isUpperLatin :: "char \<Rightarrow> bool" where
  "isUpperLatin c = (isUpperAZ c \<or> (CHR 0xC0 \<le> c \<and> c \<le> CHR 0xDE \<and> c \<noteq> CHR 0xD7))"

definition isLowerLatin :: "char \<Rightarrow> bool" where
  "isLowerLatin c = (isLowerAZ c \<or> (CHR 0xE0 \<le> c \<and> c \<le> CHR 0xFE \<and> c \<noteq> CHR 0xF7))"

definition toLowerChar :: "char \<Rightarrow> char" where
  "toLowerChar c =
     (if isUpperLatin c
      then (case c of Char b0 b1 b2 b3 b4 b5 b6 b7 \<Rightarrow> Char b0 b1 b2 b3 b4 True b6 b7)
      else c)"

definition toUpperChar :: "char \<Rightarrow> char" where
  "toUpperChar c =
     (if isLowerLatin c
      then (case c of Char b0 b1 b2 b3 b4 b5 b6 b7 \<Rightarrow> Char b0 b1 b2 b3 b4 False b6 b7)
      else c)"

definition toLowerCase :: "string \<Rightarrow> string" where
  "toLowerCase s = map toLowerChar s"

definition toUpperCase :: "string \<Rightarrow> string" where
  "toUpperCase s = map toUpperChar s"

definition trim :: "string \<Rightarrow> string" where
  "trim s = rev (dropWhile isSpace (rev (dropWhile isSpace s)))"

definition startsWith :: "string \<Rightarrow> string \<Rightarrow> bool" where
  "startsWith s p = (take (length p) s = p)"

definition endsWith :: "string \<Rightarrow> string \<Rightarrow> bool" where
  "endsWith s p = (take (length p) (rev s) = rev p)"

text \<open>
  \<^verbatim>\<open>s.split(sep)\<close> for a non-empty separator string: the pieces between the occurrences
  of \<open>sep\<close>, found from left to right; the empty string gives one empty piece.
\<close>

fun splitFrom :: "string \<Rightarrow> string \<Rightarrow> string \<Rightarrow> string list" where
  "splitFrom sep acc [] = [rev acc]"
| "splitFrom sep acc (x # xs) =
     (if sep \<noteq> [] \<and> startsWith (x # xs) sep
      then rev acc # splitFrom sep [] (drop (length sep - 1) xs)
      else splitFrom sep (x # acc) xs)"

definition splitOn :: "string \<Rightarrow> string \<Rightarrow> string list" where
  "splitOn sep s = splitFrom sep [] s"

text \<open>\<^verbatim>\<open>String(n)\<close> for a natural number: its decimal digits.\<close>

fun showNat :: "nat \<Rightarrow> string" where
  "showNat n =
     (if n < 10 then [char_of (48 + n)]
      else showNat (n div 10) @ [char_of (48 + n mod 10)])"

declare showNat.simps [simp del]

subsection \<open>Regular expressions\<close>

text \<open>
  The regular expressions of the source are kept as data and run by a backtracking matcher
  with the priorities of ECMAScript: alternatives from left to right, quantifiers greedy,
  an iteration of \<^verbatim>\<open>*\<close> that consumes nothing is rejected. \<open>Grp i r\<close> is the capturing
  group number \<open>i\<close>, \<open>Bound\<close> is \<^verbatim>\<open>\b\<close>, \<open>Bol\<close> and \<open>Eol\<close> are \<^verbatim>\<open>^\<close> and \<^verbatim>\<open>$\<close>,
  \<open>Ahead r\<close> is \<^verbatim>\<open>(?=r)\<close> and \<open>NotBehind r\<close> is \<^verbatim>\<open>(?<!r)\<close>.
\<close>

datatype regex =
    Chr char
  | Cls "char \<Rightarrow> bool"
  | Eps
  | Seq regex regex
  | Alt regex regex
  | Star regex
  | Grp nat regex
  | Bound
  | Bol
  | Eol
  | Ahead regex
  | NotBehind regex

definition Plus :: "regex \<Rightarrow> regex" where
  "Plus r = Seq r (Star r)"

definition Opt :: "regex \<Rightarrow> regex" where
  "Opt r = Alt r Eps"

definition lit :: "string \<Rightarrow> regex" where
  "lit s = foldr (\<lambda>c r. Seq (Chr c) r) s Eps"

fun seqs :: "regex list \<Rightarrow> regex" where
  "seqs [] = Eps"
| "seqs [r] = r"
| "seqs (r # rs) = Seq r (seqs rs)"

fun alts :: "regex list \<Rightarrow> regex" where
  "alts [] = Eps"
| "alts [r] = r"
| "alts (r # rs) = Alt r (alts rs)"

definition oneOf :: "string \<Rightarrow> regex" where
  "oneOf cs = Cls (\<lambda>c. c \<in> set cs)"

record flags =
  ignoreCase :: bool
  multiline :: bool

definition noFlags :: flags where
  "noFlags = \<lparr>ignoreCase = False, multiline = False\<rparr>"

definition flagI :: flags where
  "flagI = \<lparr>ignoreCase = True, multiline = False\<rparr>"

definition flagM :: flags where
  "flagM = \<lparr>ignoreCase = False, multiline = True\<rparr>"

text \<open>
  A matcher state is the text before the position (reversed), the text after it, and the
  captures made so far. A matcher takes the continuation that has to succeed on the rest.
\<close>

type_synonym caps = "(nat \<times> string) list"
type_synonym mstate = "string \<times> string \<times> caps"
type_synonym cont = "mstate \<Rightarrow> mstate option"

fun guard :: "bool \<Rightarrow> cont \<Rightarrow> mstate \<Rightarrow> mstate option" where
  "guard True k st = k st"
| "guard False k st = None"

fun orElse :: "mstate option \<Rightarrow> cont \<Rightarrow> mstate \<Rightarrow> mstate option" where
  "orElse (Some r) k st = Some r"
| "orElse None k st = k st"

fun step :: "(char \<Rightarrow> bool) \<Rightarrow> cont \<Rightarrow> mstate \<Rightarrow> mstate option" where
  "step p k (bef, [], cs) = None"
| "step p k (bef, x # aft, cs) = guard (p x) k (x # bef, aft, cs)"

text \<open>
  The text after the position is a suffix of the input, so it has changed exactly when the
  position has.
\<close>

fun progressed :: "mstate \<Rightarrow> mstate \<Rightarrow> bool" where
  "progressed (bef, aft, cs) (bef', aft', cs') = (aft' \<noteq> aft)"

text \<open>
  Greedy iteration. Every iteration consumes a character, so there are at most as many as
  characters left: the first argument, the text after the position, counts them.
\<close>

primrec star :: "string \<Rightarrow> (cont \<Rightarrow> cont) \<Rightarrow> cont \<Rightarrow> mstate \<Rightarrow> mstate option" where
  "star [] mr k st = k st"
| "star (x # fuel) mr k st =
     orElse (mr (\<lambda>st'. guard (progressed st st') (star fuel mr k) st') st) k st"

text \<open>
  \<^verbatim>\<open>\b\<close> looks at the characters next to the position, \<^verbatim>\<open>^\<close> and \<^verbatim>\<open>$\<close> at the
  end of the text or, under the flag \<^verbatim>\<open>m\<close>, at a line terminator next to the position.
\<close>

fun wordCharNext :: "string \<Rightarrow> bool" where
  "wordCharNext [] = False"
| "wordCharNext (c # cs) = isWordChar c"

fun atBoundary :: "mstate \<Rightarrow> bool" where
  "atBoundary (bef, aft, cs) = (wordCharNext bef \<noteq> wordCharNext aft)"

fun lineEdge :: "bool \<Rightarrow> string \<Rightarrow> bool" where
  "lineEdge ml [] = True"
| "lineEdge ml (c # cs) = (ml \<and> isLineTerminator c)"

fun atBol :: "bool \<Rightarrow> mstate \<Rightarrow> bool" where
  "atBol ml (bef, aft, cs) = lineEdge ml bef"

fun atEol :: "bool \<Rightarrow> mstate \<Rightarrow> bool" where
  "atEol ml (bef, aft, cs) = lineEdge ml aft"

fun setCap :: "nat \<Rightarrow> mstate \<Rightarrow> mstate \<Rightarrow> mstate" where
  "setCap i (bef, aft, cs) (bef', aft', cs') =
     (bef', aft', (i, take (length aft - length aft') aft) # cs')"

fun stopAt :: "string \<Rightarrow> mstate \<Rightarrow> mstate option" where
  "stopAt target (bef, aft, cs) = guard (aft = target) Some (bef, aft, cs)"

text \<open>
  \<open>endsHere mr target bef aft\<close>: some stretch of text that ends where \<open>target\<close>
  begins is matched by \<open>mr\<close>. The starts are tried from the position backwards.
\<close>

fun endsHere :: "(cont \<Rightarrow> cont) \<Rightarrow> string \<Rightarrow> string \<Rightarrow> string \<Rightarrow> bool" where
  "endsHere mr target [] aft = (mr (stopAt target) ([], aft, []) \<noteq> None)"
| "endsHere mr target (x # bef) aft =
     (mr (stopAt target) (x # bef, aft, []) \<noteq> None \<or> endsHere mr target bef (x # aft))"

fun behind :: "(cont \<Rightarrow> cont) \<Rightarrow> mstate \<Rightarrow> bool" where
  "behind mr (bef, aft, cs) = endsHere mr aft bef aft"

text \<open>
  Under the flag \<^verbatim>\<open>i\<close> two characters are equal when their upper cases are, and a class
  holds a character when it holds one of its case variants.
\<close>

definition chrTest :: "flags \<Rightarrow> char \<Rightarrow> char \<Rightarrow> bool" where
  "chrTest f c x = (if ignoreCase f then toUpperChar x = toUpperChar c else x = c)"

definition clsTest :: "flags \<Rightarrow> (char \<Rightarrow> bool) \<Rightarrow> char \<Rightarrow> bool" where
  "clsTest f p x = (if ignoreCase f then p x \<or> p (toLowerChar x) \<or> p (toUpperChar x) else p x)"

primrec matchRe :: "regex \<Rightarrow> flags \<Rightarrow> cont \<Rightarrow> mstate \<Rightarrow> mstate option" where
  "matchRe (Chr c) f k st = step (chrTest f c) k st"
| "matchRe (Cls p) f k st = step (clsTest f p) k st"
| "matchRe Eps f k st = k st"
| "matchRe (Seq a b) f k st = matchRe a f (matchRe b f k) st"
| "matchRe (Alt a b) f k st = orElse (matchRe a f k st) (matchRe b f k) st"
| "matchRe (Star a) f k st = star (fst (snd st)) (matchRe a f) k st"
| "matchRe (Grp i a) f k st = matchRe a f (\<lambda>st'. k (setCap i st st')) st"
| "matchRe Bound f k st = guard (atBoundary st) k st"
| "matchRe Bol f k st = guard (atBol (multiline f) st) k st"
| "matchRe Eol f k st = guard (atEol (multiline f) st) k st"
| "matchRe (Ahead a) f k st = guard (matchRe a f Some st \<noteq> None) k st"
| "matchRe (NotBehind a) f k st = guard (\<not> behind (matchRe a f) st) k st"

text \<open>One attempt at the current position, with no captures yet.\<close>

definition exec :: "flags \<Rightarrow> regex \<Rightarrow> string \<Rightarrow> string \<Rightarrow> mstate option" where
  "exec f r bef aft = matchRe r f Some (bef, aft, [])"

text \<open>
  The methods that search a text with a regular expression read it from left to right, one
  character a round. \<open>skip\<close> counts the characters that still belong to the last match;
  the next search starts after them, as \<^verbatim>\<open>lastIndex\<close> says, and one character further
  after an empty match.
\<close>

fun matchedText :: "string \<Rightarrow> string \<Rightarrow> string" where
  "matchedText aft aft' = take (length aft - length aft') aft"

type_synonym replacement = "string \<Rightarrow> caps \<Rightarrow> string"

text \<open>
  \<^verbatim>\<open>s.replace(/r/g, ...)\<close>: every match is replaced by what \<open>rep\<close> makes of the matched
  text and its captures. \<open>loop\<close> is the rest of the scan, waiting for its \<open>skip\<close>.
\<close>

fun replaceResume :: "nat \<Rightarrow> (nat \<Rightarrow> string) \<Rightarrow> char \<Rightarrow> string" where
  "replaceResume 0 loop x = x # loop 0"
| "replaceResume (Suc n) loop x = loop n"

fun replaceFound :: "mstate option \<Rightarrow> replacement \<Rightarrow> (nat \<Rightarrow> string) \<Rightarrow> char \<Rightarrow> string \<Rightarrow> string" where
  "replaceFound None rep loop x xs = x # loop 0"
| "replaceFound (Some (bef', aft', cs)) rep loop x xs =
     rep (matchedText (x # xs) aft') cs @ replaceResume (length (x # xs) - length aft') loop x"

fun replaceChar ::
  "nat \<Rightarrow> (string \<Rightarrow> mstate option) \<Rightarrow> replacement \<Rightarrow> (nat \<Rightarrow> string) \<Rightarrow> char \<Rightarrow> string \<Rightarrow> string" where
  "replaceChar 0 search rep loop x xs = replaceFound (search (x # xs)) rep loop x xs"
| "replaceChar (Suc n) search rep loop x xs = loop n"

fun replaceLast :: "mstate option \<Rightarrow> replacement \<Rightarrow> string" where
  "replaceLast None rep = []"
| "replaceLast (Some (bef', aft', cs)) rep = rep [] cs"

fun replaceEnd :: "nat \<Rightarrow> (string \<Rightarrow> mstate option) \<Rightarrow> replacement \<Rightarrow> string" where
  "replaceEnd 0 search rep = replaceLast (search []) rep"
| "replaceEnd (Suc n) search rep = []"

primrec replaceScan :: "string \<Rightarrow> flags \<Rightarrow> regex \<Rightarrow> replacement \<Rightarrow> string \<Rightarrow> nat \<Rightarrow> string" where
  "replaceScan [] f r rep bef skip = replaceEnd skip (exec f r bef) rep"
| "replaceScan (x # xs) f r rep bef skip =
     replaceChar skip (exec f r bef) rep (replaceScan xs f r rep (x # bef)) x xs"

definition replaceAll :: "flags \<Rightarrow> regex \<Rightarrow> replacement \<Rightarrow> string \<Rightarrow> string" where
  "replaceAll f r rep s = replaceScan s f r rep [] 0"

text \<open>
  Replacement texts: a fixed string, or a pattern such as \<^verbatim>\<open>'$1<DEC>$2'\<close> whose
  \<^verbatim>\<open>$n\<close> stands for the text of group \<open>n\<close>.
\<close>

datatype piece = Txt string | Ref nat

fun pieceText :: "caps \<Rightarrow> piece \<Rightarrow> string" where
  "pieceText cs (Txt t) = t"
| "pieceText cs (Ref i) = (case map_of cs i of Some t \<Rightarrow> t | None \<Rightarrow> [])"

definition pattern :: "piece list \<Rightarrow> replacement" where
  "pattern ps matched cs = concat (map (pieceText cs) ps)"

definition fixed :: "string \<Rightarrow> replacement" where
  "fixed t matched cs = t"

text \<open>
  \<^verbatim>\<open>s.match(/r/g)\<close>: the list of the matched texts (JavaScript's \<^verbatim>\<open>null\<close> is the
  empty list here; the source only takes the length, after a test for \<^verbatim>\<open>null\<close>).
\<close>

fun matchFound :: "mstate option \<Rightarrow> (nat \<Rightarrow> string list) \<Rightarrow> string \<Rightarrow> string list" where
  "matchFound None loop aft = loop 0"
| "matchFound (Some (bef', aft', cs)) loop aft =
     matchedText aft aft' # loop (length aft - length aft' - 1)"

fun matchChar ::
  "nat \<Rightarrow> (string \<Rightarrow> mstate option) \<Rightarrow> (nat \<Rightarrow> string list) \<Rightarrow> string \<Rightarrow> string list" where
  "matchChar 0 search loop aft = matchFound (search aft) loop aft"
| "matchChar (Suc n) search loop aft = loop n"

fun matchLast :: "mstate option \<Rightarrow> string list" where
  "matchLast None = []"
| "matchLast (Some st) = [[]]"

fun matchEnd :: "nat \<Rightarrow> (string \<Rightarrow> mstate option) \<Rightarrow> string list" where
  "matchEnd 0 search = matchLast (search [])"
| "matchEnd (Suc n) search = []"

primrec matchScan :: "string \<Rightarrow> flags \<Rightarrow> regex \<Rightarrow> string \<Rightarrow> nat \<Rightarrow> string list" where
  "matchScan [] f r bef skip = matchEnd skip (exec f r bef)"
| "matchScan (x # xs) f r bef skip =
     matchChar skip (exec f r bef) (matchScan xs f r (x # bef)) (x # xs)"

definition matchAll :: "flags \<Rightarrow> regex \<Rightarrow> string \<Rightarrow> string list" where
  "matchAll f r s = matchScan s f r [] 0"

text \<open>\<^verbatim>\<open>/r/.test(s)\<close>: there is a match at some position.\<close>

fun testFrom :: "flags \<Rightarrow> regex \<Rightarrow> string \<Rightarrow> string \<Rightarrow> bool" where
  "testFrom f r bef [] = (exec f r bef [] \<noteq> None)"
| "testFrom f r bef (x # xs) = (exec f r bef (x # xs) \<noteq> None \<or> testFrom f r (x # bef) xs)"

definition test :: "flags \<Rightarrow> regex \<Rightarrow> string \<Rightarrow> bool" where
  "test f r s = testFrom f r [] s"

text \<open>
  \<^verbatim>\<open>s.split(/r/)\<close> for a regular expression without groups. \<open>acc\<close> is the piece since
  the last separator, reversed. No match is looked for at the end of the text. An empty
  match splits before the character, unless the piece is still empty.
\<close>

fun splitEmpty :: "string \<Rightarrow> (string \<Rightarrow> nat \<Rightarrow> string list) \<Rightarrow> char \<Rightarrow> string list" where
  "splitEmpty [] loop x = loop [x] 0"
| "splitEmpty (a # acc) loop x = rev (a # acc) # loop [x] 0"

fun splitResume :: "nat \<Rightarrow> string \<Rightarrow> (string \<Rightarrow> nat \<Rightarrow> string list) \<Rightarrow> char \<Rightarrow> string list" where
  "splitResume 0 acc loop x = splitEmpty acc loop x"
| "splitResume (Suc n) acc loop x = rev acc # loop [] n"

fun splitFound ::
  "mstate option \<Rightarrow> string \<Rightarrow> (string \<Rightarrow> nat \<Rightarrow> string list) \<Rightarrow> char \<Rightarrow> string \<Rightarrow> string list" where
  "splitFound None acc loop x xs = loop (x # acc) 0"
| "splitFound (Some (bef', aft', cs)) acc loop x xs =
     splitResume (length (x # xs) - length aft') acc loop x"

fun splitChar ::
  "nat \<Rightarrow> (string \<Rightarrow> mstate option) \<Rightarrow> string \<Rightarrow> (string \<Rightarrow> nat \<Rightarrow> string list) \<Rightarrow> char \<Rightarrow> string
     \<Rightarrow> string list" where
  "splitChar 0 search acc loop x xs = splitFound (search (x # xs)) acc loop x xs"
| "splitChar (Suc n) search acc loop x xs = loop acc n"

primrec splitScan :: "string \<Rightarrow> flags \<Rightarrow> regex \<Rightarrow> string \<Rightarrow> string \<Rightarrow> nat \<Rightarrow> string list" where
  "splitScan [] f r bef acc skip = [rev acc]"
| "splitScan (x # xs) f r bef acc skip =
     splitChar skip (exec f r bef) acc (splitScan xs f r (x # bef)) x xs"

definition splitRe :: "flags \<Rightarrow> regex \<Rightarrow> string \<Rightarrow> string list" where
  "splitRe f r s =
     (if s = [] then (if exec f r [] [] = None then [[]] else [])
      else splitScan s f r [] [] 0)"

subsection \<open>Numbers\<close>

text \<open>
  Counts and lengths are natural numbers or integers. Where the source divides or multiplies
  them, the result is a double: a rational, rounded to 53 significant bits, to the nearest
  with ties to the even one. \<open>fl\<close> is that rounding, with an unbounded exponent (no overflow
  to \<^verbatim>\<open>Infinity\<close>, no subnormal numbers: neither occurs on counts below \<open>2 ^ 1023\<close>).
  Comparisons of doubles are those of the rationals they denote.
\<close>

definition pow2 :: "int \<Rightarrow> rat" where
  "pow2 e = (if 0 \<le> e then 2 ^ nat e else 1 / 2 ^ nat (- e))"

text \<open>For \<open>0 < x\<close>: the exponent \<open>e\<close> with \<open>2\<^sup>e \<le> x < 2\<^sup>e\<^sup>+\<^sup>1\<close>.\<close>

definition ilog2 :: "rat \<Rightarrow> int" where
  "ilog2 x =
     (let (p, q) = quotient_of x; d = bitlen p - bitlen q
      in if pow2 d \<le> x then d else d - 1)"

definition roundEven :: "rat \<Rightarrow> int" where
  "roundEven y =
     (let n = \<lfloor>y\<rfloor>; r = y - of_int n
      in if r < 1 / 2 then n else if 1 / 2 < r then n + 1 else if even n then n else n + 1)"

definition fl :: "rat \<Rightarrow> rat" where
  "fl x = (if x = 0 then 0 else (let u = pow2 (ilog2 \<bar>x\<bar> - 52) in of_int (roundEven (x / u)) * u))"

definition jsAdd :: "rat \<Rightarrow> rat \<Rightarrow> rat" where
  "jsAdd a b = fl (a + b)"

definition jsSub :: "rat \<Rightarrow> rat \<Rightarrow> rat" where
  "jsSub a b = fl (a - b)"

definition jsMul :: "rat \<Rightarrow> rat \<Rightarrow> rat" where
  "jsMul a b = fl (a * b)"

definition jsDiv :: "rat \<Rightarrow> rat \<Rightarrow> rat" where
  "jsDiv a b = fl (a / b)"

text \<open>\<^verbatim>\<open>Math.round\<close>: the nearest integer, a tie going up.\<close>

definition mathRound :: "rat \<Rightarrow> int" where
  "mathRound x = \<lfloor>x + 1 / 2\<rfloor>"

text \<open>\<^verbatim>\<open>Math.round(x * 10) / 10\<close>, as the source writes it in three places.\<close>

definition roundTenth :: "rat \<Rightarrow> rat" where
  "roundTenth x = jsDiv (of_int (mathRound (jsMul x 10))) 10"

text \<open>A number that may be \<^verbatim>\<open>NaN\<close>; every comparison with \<^verbatim>\<open>NaN\<close> is false.\<close>

datatype number = Finite rat | NaN

fun numLe :: "number \<Rightarrow> rat \<Rightarrow> bool" where
  "numLe (Finite x) y = (x \<le> y)"
| "numLe NaN y = False"

fun numLt :: "number \<Rightarrow> rat \<Rightarrow> bool" where
  "numLt (Finite x) y = (x < y)"
| "numLt NaN y = False"

subsection \<open>The tables of the analyzer\<close>

text \<open>\<^verbatim>\<open>READING_SPEEDS\<close>, looked up with the upper-cased level.\<close>

definition READING_SPEEDS_MEDIUM :: nat where
  "READING_SPEEDS_MEDIUM = 250"

definition READING_SPEEDS :: "(string \<times> nat) list" where
  "READING_SPEEDS = [(''EASY'', 275), (''MEDIUM'', READING_SPEEDS_MEDIUM), (''HARD'', 200)]"

text \<open>\<^verbatim>\<open>THRESHOLDS\<close>.\<close>

definition SENTENCE_LENGTH_EASY :: rat where "SENTENCE_LENGTH_EASY = 14"
definition SENTENCE_LENGTH_MEDIUM :: rat where "SENTENCE_LENGTH_MEDIUM = 22"
definition SENTENCE_LENGTH_HARD :: rat where "SENTENCE_LENGTH_HARD = 25"
definition COMPLEX_RATIO_EASY :: rat where "COMPLEX_RATIO_EASY = fl (8 / 100)"
definition COMPLEX_RATIO_HARD :: rat where "COMPLEX_RATIO_HARD = fl (15 / 100)"
definition PARAGRAPH_DENSITY_DENSE :: nat where "PARAGRAPH_DENSITY_DENSE = 100"
definition PARAGRAPH_DENSITY_MIN_SENTENCES :: nat where "PARAGRAPH_DENSITY_MIN_SENTENCES = 4"
definition CLAUSE_DENSITY_COMPLEX :: nat where "CLAUSE_DENSITY_COMPLEX = 4"

text \<open>\<^verbatim>\<open>SYLLABLE_OVERRIDES\<close>: the object's own properties.\<close>

definition SYLLABLE_OVERRIDES :: "(string \<times> int) list" where
  "SYLLABLE_OVERRIDES =
    [(''business'', 2), (''every'', 2), (''different'', 2), (''interest'', 2),
     (''evening'', 2), (''family'', 2), (''several'', 2), (''general'', 2),
     (''natural'', 2), (''actually'', 3), (''chocolate'', 2), (''favorite'', 2),
     (''vegetable'', 3), (''comfortable'', 3), (''reasonable'', 3),
     (''important'', 3), (''beautiful'', 3), (''possible'', 3), (''terrible'', 3),
     (''difficult'', 3), (''wonderful'', 3), (''carefully'', 3), (''probably'', 3),
     (''especially'', 4), (''interesting'', 4), (''unfortunately'', 5)]"

text \<open>\<^verbatim>\<open>COMMON_POLYSYLLABIC\<close>, a \<^verbatim>\<open>Set\<close>.\<close>

definition COMMON_POLYSYLLABIC :: "string list" where
  "COMMON_POLYSYLLABIC =
    [''everyone'', ''everything'', ''everywhere'', ''however'', ''another'',
     ''together'', ''already'', ''although'', ''without'', ''because'',
     ''before'', ''between'', ''during'', ''often'', ''sometimes'',
     ''usually'', ''always'', ''really'', ''actually'', ''probably'',
     ''certainly'', ''definitely'', ''absolutely'', ''completely'', ''exactly'',
     ''important'', ''different'', ''beautiful'', ''wonderful'', ''interesting'',
     ''government'', ''understand'', ''information'', ''technology'', ''education'',
     ''community'', ''experience'', ''opportunity'', ''relationship'', ''remember'',
     ''something'', ''anything'', ''nothing'', ''everything'', ''somebody'']"

text \<open>
  \<^verbatim>\<open>ABBREVIATIONS\<close>, a \<^verbatim>\<open>Set\<close>, in the order of insertion, which is the order of the
  alternatives of the expression built from it (the second \<^verbatim>\<open>'ms'\<close> of the source adds
  nothing to the set).
\<close>

definition ABBREVIATIONS :: "string list" where
  "ABBREVIATIONS =
    [''mr'', ''mrs'', ''ms'', ''dr'', ''prof'', ''sr'', ''jr'', ''vs'', ''etc'', ''inc'', ''ltd'', ''corp'',
     ''eg'', ''ie'', ''al'', ''vol'', ''no'', ''pp'', ''ed'', ''est'', ''approx'', ''dept'', ''govt'',
     ''jan'', ''feb'', ''mar'', ''apr'', ''may'', ''jun'', ''jul'', ''aug'', ''sep'', ''oct'', ''nov'', ''dec'',
     ''mon'', ''tue'', ''wed'', ''thu'', ''fri'', ''sat'', ''sun'',
     ''st'', ''nd'', ''rd'', ''th'', ''ave'', ''blvd'', ''ct'', ''ln'', ''ft'', ''lb'', ''oz'',
     ''u'', ''s'', ''a'', ''b'', ''c'', ''d'', ''e'', ''f'', ''g'', ''h'', ''i'', ''j'', ''k'', ''l'', ''m'',
     ''n'', ''o'', ''p'', ''q'', ''r'', ''t'', ''v'', ''w'', ''x'', ''y'', ''z'',
     ''ph'', ''ba'', ''ma'', ''bs'', ''mba'', ''ceo'', ''cto'', ''cfo'']"

subsection \<open>\<^verbatim>\<open>countSyllables\<close>\<close>

text \<open>
  What \<^verbatim>\<open>countSyllables\<close> returns is a number, with one exception. The override table is
  a plain object, and \<^verbatim>\<open>this.SYLLABLE_OVERRIDES[word]\<close> also finds the lower-case members
  that every object inherits from \<^verbatim>\<open>Object.prototype\<close>: \<^verbatim>\<open>constructor\<close> (a function)
  and \<^verbatim>\<open>__proto__\<close> (an object). Both are truthy and are returned as they are.
  \<open>NonNumeric\<close> stands for these two values and for the strings that \<^verbatim>\<open>+\<close> makes of them
  in the loop over the parts of a hyphenated word.
\<close>

datatype syllables = Count int | NonNumeric

fun plusSyllables :: "syllables \<Rightarrow> syllables \<Rightarrow> syllables" where
  "plusSyllables (Count a) (Count b) = Count (a + b)"
| "plusSyllables _ _ = NonNumeric"

definition inheritedMembers :: "string list" where
  "inheritedMembers = [''constructor'', ''__proto__'']"

definition overrideLookup :: "string \<Rightarrow> syllables option" where
  "overrideLookup word =
     (case map_of SYLLABLE_OVERRIDES word of
        Some n \<Rightarrow> Some (Count n)
      | None \<Rightarrow> if word \<in> set inheritedMembers then Some NonNumeric else None)"

definition isVowel :: "char \<Rightarrow> nat \<Rightarrow> bool" where
  "isVowel c i = (c \<in> set ''aeiou'' \<or> (c = CHR ''y'' \<and> 0 < i))"

text \<open>
  The loop over the characters: \<open>i\<close> is the index, \<open>prevVowel\<close> and \<open>syl\<close> are the two
  variables of the source.
\<close>

fun vowelGroups :: "string \<Rightarrow> nat \<Rightarrow> bool \<Rightarrow> int \<Rightarrow> int" where
  "vowelGroups [] i prevVowel syl = syl"
| "vowelGroups (c # cs) i prevVowel syl =
     vowelGroups cs (i + 1) (isVowel c i) (if isVowel c i \<and> \<not> prevVowel then syl + 1 else syl)"

definition silentE :: "string \<Rightarrow> int \<Rightarrow> int" where
  "silentE word syl =
     (if endsWith word ''e'' \<and> \<not> endsWith word ''le'' \<and> \<not> endsWith word ''ee''
         \<and> \<not> endsWith word ''ie''
      then max 1 (syl - 1) else syl)"

definition endingEd :: "string \<Rightarrow> int \<Rightarrow> int" where
  "endingEd word syl =
     (if endsWith word ''ed'' \<and> 3 < length word
      then (if word ! (length word - 3) \<notin> set ''td'' then max 1 (syl - 1) else syl)
      else syl)"

definition endingEs :: "string \<Rightarrow> int \<Rightarrow> int" where
  "endingEs word syl =
     (if endsWith word ''es'' \<and> 3 < length word
      then (if word ! (length word - 3) \<notin> set ''sxzh'' \<and> \<not> endsWith word ''ches''
               \<and> \<not> endsWith word ''shes''
            then max 1 (syl - 1) else syl)
      else syl)"

text \<open>The part of \<^verbatim>\<open>countSyllables\<close> after the hyphen test: lines 118 to 160.\<close>

definition vowelPattern :: "string \<Rightarrow> int" where
  "vowelPattern word = max 1 (endingEs word (endingEd word (silentE word (vowelGroups word 0 False 0))))"

lemma length_trim_le: "length (trim s) \<le> length s"
proof -
  have "length (trim s) \<le> length (rev (dropWhile isSpace s))"
    unfolding trim_def length_rev [of "dropWhile isSpace (rev (dropWhile isSpace s))"]
    by (rule length_dropWhile_le)
  also have "\<dots> = length (dropWhile isSpace s)"
    by simp
  also have "\<dots> \<le> length s"
    by (rule length_dropWhile_le)
  finally show ?thesis .
qed

lemma splitFrom_part_length:
  "p \<in> set (splitFrom sep acc s) \<Longrightarrow> length p \<le> length acc + length s"
proof (induction sep acc s rule: splitFrom.induct)
  case (1 sep acc)
  then show ?case by simp
next
  case (2 sep acc x xs)
  show ?case
  proof (cases "sep \<noteq> [] \<and> startsWith (x # xs) sep")
    case True
    with "2.prems" have "p = rev acc \<or> p \<in> set (splitFrom sep [] (drop (length sep - 1) xs))"
      by simp
    then show ?thesis
    proof
      assume "p = rev acc"
      then show ?thesis by simp
    next
      assume "p \<in> set (splitFrom sep [] (drop (length sep - 1) xs))"
      with "2.IH"(1) True have "length p \<le> length (drop (length sep - 1) xs)"
        by fastforce
      then show ?thesis by simp
    qed
  next
    case False
    with "2.prems" have "p \<in> set (splitFrom sep (x # acc) xs)"
      by (simp split: if_splits)
    with "2.IH"(2) False have "length p \<le> length (x # acc) + length xs"
      by blast
    then show ?thesis by simp
  qed
qed

text \<open>A piece of a text that holds the separator is shorter than the text.\<close>

lemma splitFrom_part_shorter:
  "p \<in> set (splitFrom [c] acc s) \<Longrightarrow> c \<in> set s \<Longrightarrow> length p < length acc + length s"
proof (induction s arbitrary: acc)
  case Nil
  then show ?case by simp
next
  case (Cons x xs)
  show ?case
  proof (cases "x = c")
    case True
    with Cons.prems(1) have "p = rev acc \<or> p \<in> set (splitFrom [c] [] xs)"
      by (simp add: startsWith_def)
    then show ?thesis
    proof
      assume "p = rev acc"
      then show ?thesis by simp
    next
      assume "p \<in> set (splitFrom [c] [] xs)"
      then have "length p \<le> length xs"
        using splitFrom_part_length [of p "[c]" "[]" xs] by simp
      then show ?thesis by simp
    qed
  next
    case False
    with Cons.prems have "p \<in> set (splitFrom [c] (x # acc) xs)" and "c \<in> set xs"
      by (auto simp add: startsWith_def)
    then have "length p < length (x # acc) + length xs"
      by (rule Cons.IH)
    then show ?thesis by simp
  qed
qed

lemma splitOn_part_shorter:
  "p \<in> set (splitOn [c] s) \<Longrightarrow> c \<in> set s \<Longrightarrow> length p < length s"
  using splitFrom_part_shorter [of p c "[]" s] by (simp add: splitOn_def)

function countSyllables :: "string \<Rightarrow> syllables" where
  "countSyllables word0 =
     (if word0 = [] then Count 0
      else (let word = trim (toLowerCase word0) in
        if length word \<le> 2 then Count 1
        else (case overrideLookup word of
            Some v \<Rightarrow> v
          | None \<Rightarrow>
              if CHR ''-'' \<in> set word
              then foldl (\<lambda>sum part. plusSyllables sum (countSyllables part)) (Count 0)
                     (splitOn ''-'' word)
              else Count (vowelPattern word))))"
  by pat_completeness auto
termination
proof (relation "measure length")
  show "wf (measure length)" by simp
next
  fix word0 word part :: string and sum :: syllables
  assume w: "word = trim (toLowerCase word0)"
    and h: "CHR ''-'' \<in> set word"
    and p: "part \<in> set (splitOn ''-'' word)"
  have "length part < length word"
    using p h by (rule splitOn_part_shorter)
  also have "\<dots> \<le> length word0"
    unfolding w using length_trim_le [of "toLowerCase word0"] by (simp add: toLowerCase_def)
  finally show "(part, word0) \<in> measure length" by simp
qed

declare countSyllables.simps [simp del]

subsection \<open>\<^verbatim>\<open>extractSentences\<close>\<close>

text \<open>The regular expressions of \<^verbatim>\<open>extractSentences\<close>, in the order of the source.\<close>

definition whitespaceRe :: regex where \<comment> \<open>\<^verbatim>\<open>/\s+/\<close>\<close>
  "whitespaceRe = Plus (Cls isSpace)"

definition nbspRe :: regex where \<comment> \<open>\<^verbatim>\<open>/\u00A0/\<close>\<close>
  "nbspRe = Chr (CHR 0xA0)"

definition urlRe :: regex where \<comment> \<open>\<^verbatim>\<open>/https?:\/\/[^\s]+/\<close>\<close>
  "urlRe = seqs [lit ''http'', Opt (Chr CHR ''s''), lit ''://'', Plus (Cls (\<lambda>c. \<not> isSpace c))]"

definition emailRe :: regex where \<comment> \<open>\<^verbatim>\<open>/[\w.-]+@[\w.-]+\.\w+/\<close>\<close>
  "emailRe =
     seqs [Plus (Cls (\<lambda>c. isWordChar c \<or> c = CHR ''.'' \<or> c = CHR ''-'')), Chr CHR ''@'',
           Plus (Cls (\<lambda>c. isWordChar c \<or> c = CHR ''.'' \<or> c = CHR ''-'')), Chr CHR ''.'',
           Plus (Cls isWordChar)]"

definition decimalRe :: regex where \<comment> \<open>\<^verbatim>\<open>/(\d)\.(\d)/\<close>\<close>
  "decimalRe = seqs [Grp 1 (Cls isDigit), Chr CHR ''.'', Grp 2 (Cls isDigit)]"

definition currencyRe :: regex where \<comment> \<open>\<^verbatim>\<open>/\$[\d,.]+/\<close>\<close>
  "currencyRe = Seq (Chr CHR ''$'') (Plus (Cls (\<lambda>c. isDigit c \<or> c = CHR '','' \<or> c = CHR ''.'')))"

definition dotRe :: regex where \<comment> \<open>\<^verbatim>\<open>/\./\<close>\<close>
  "dotRe = Chr CHR ''.''"

definition ellipsisRe :: regex where \<comment> \<open>\<^verbatim>\<open>/\.{2,}/\<close>\<close>
  "ellipsisRe = seqs [Chr CHR ''.'', Chr CHR ''.'', Star (Chr CHR ''.'')]"

definition abbrRegex :: regex where \<comment> \<open>\<^verbatim>\<open>\b(mr|mrs|...)\.(?=\s|$)\<close>, flags \<^verbatim>\<open>gi\<close>\<close>
  "abbrRegex =
     seqs [Bound, Grp 1 (alts (map lit ABBREVIATIONS)), Chr CHR ''.'', Ahead (Alt (Cls isSpace) Eol)]"

definition initialsRe :: regex where \<comment> \<open>\<^verbatim>\<open>/\b([A-Z])\.\s(?=[A-Z]\.?\s?)/\<close>\<close>
  "initialsRe =
     seqs [Bound, Grp 1 (Cls isUpperAZ), Chr CHR ''.'', Cls isSpace,
           Ahead (seqs [Cls isUpperAZ, Opt (Chr CHR ''.''), Opt (Cls isSpace)])]"

definition listStartRe :: regex where \<comment> \<open>\<^verbatim>\<open>/^(\d+)\.\s/\<close>, flags \<^verbatim>\<open>gm\<close>\<close>
  "listStartRe = seqs [Bol, Grp 1 (Plus (Cls isDigit)), Chr CHR ''.'', Cls isSpace]"

definition listInnerRe :: regex where \<comment> \<open>\<^verbatim>\<open>/\s(\d+)\.\s/\<close>\<close>
  "listInnerRe = seqs [Cls isSpace, Grp 1 (Plus (Cls isDigit)), Chr CHR ''.'', Cls isSpace]"

definition isOpener :: "char \<Rightarrow> bool" where \<comment> \<open>\<^verbatim>\<open>[A-Z"'([{]\<close>\<close>
  "isOpener c = (isUpperAZ c \<or> c = CHR 0x22 \<or> c = CHR 0x27 \<or> c \<in> set ''([{'')"

definition boundaryRe :: regex where \<comment> \<open>\<^verbatim>\<open>/([.!?])\s+(?=[A-Z"'([{]|$)/\<close>\<close>
  "boundaryRe = seqs [Grp 1 (oneOf ''.!?''), Plus (Cls isSpace), Ahead (Alt (Cls isOpener) Eol)]"

definition finalRe :: regex where \<comment> \<open>\<^verbatim>\<open>/([.!?])$/\<close>\<close>
  "finalRe = Seq (Grp 1 (oneOf ''.!?'')) Eol"

definition alphaRe :: regex where \<comment> \<open>\<^verbatim>\<open>/[a-zA-Z]/\<close>\<close>
  "alphaRe = Cls isAlpha"

text \<open>The function given to \<^verbatim>\<open>map\<close>: the markers are put back, then \<^verbatim>\<open>trim\<close>.\<close>

definition restoreMarkers :: "string \<Rightarrow> string" where
  "restoreMarkers s =
     (let s = replaceAll noFlags (lit ''<URL>'') (fixed ''[URL]'') s;
          s = replaceAll noFlags (lit ''<EMAIL>'') (fixed ''[EMAIL]'') s;
          s = replaceAll noFlags (lit ''<ABBR>'') (fixed ''.'') s;
          s = replaceAll noFlags (lit ''<DEC>'') (fixed ''.'') s;
          s = replaceAll noFlags (lit ''<ELLIP>'') (fixed ''...'') s;
          s = replaceAll noFlags (lit ''<INIT>'') (fixed ''.'') s;
          s = replaceAll noFlags (lit ''<NUM>'') (fixed ''.'') s
      in trim s)"

text \<open>The function given to \<^verbatim>\<open>filter\<close>: more than 5 characters and 3 tokens with a letter.\<close>

definition isSentence :: "string \<Rightarrow> bool" where
  "isSentence s =
     (let words = filter (test noFlags alphaRe) (splitRe noFlags whitespaceRe s)
      in 5 < length s \<and> 3 \<le> length words)"

text \<open>The protections, up to the numbered lists: lines 173 to 201.\<close>

definition protect :: "string \<Rightarrow> string" where
  "protect text =
     (let normalized = trim (replaceAll noFlags nbspRe (fixed '' '')
                               (replaceAll noFlags whitespaceRe (fixed '' '') text));
          normalized = replaceAll noFlags urlRe (fixed ''<URL>'') normalized;
          normalized = replaceAll noFlags emailRe (fixed ''<EMAIL>'') normalized;
          normalized = replaceAll noFlags decimalRe (pattern [Ref 1, Txt ''<DEC>'', Ref 2]) normalized;
          normalized = replaceAll noFlags currencyRe
                         (\<lambda>matched cs. replaceAll noFlags dotRe (fixed ''<DEC>'') matched) normalized;
          normalized = replaceAll noFlags ellipsisRe (fixed ''<ELLIP>'') normalized;
          normalized = replaceAll flagI abbrRegex (pattern [Ref 1, Txt ''<ABBR>'']) normalized;
          normalized = replaceAll noFlags initialsRe (pattern [Ref 1, Txt ''<INIT> '']) normalized;
          normalized = replaceAll flagM listStartRe (pattern [Ref 1, Txt ''<NUM> '']) normalized;
          normalized = replaceAll noFlags listInnerRe (pattern [Txt '' '', Ref 1, Txt ''<NUM> '']) normalized
      in normalized)"

text \<open>The split marks: lines 204 to 207.\<close>

definition markSplits :: "string \<Rightarrow> string" where
  "markSplits normalized =
     replaceAll noFlags finalRe (pattern [Ref 1, Txt ''<SPLIT>''])
       (replaceAll noFlags boundaryRe (pattern [Ref 1, Txt ''<SPLIT>'']) normalized)"

definition extractSentences :: "string \<Rightarrow> string list" where
  "extractSentences text =
     (if text = [] \<or> length (trim text) = 0 then []
      else filter isSentence (map restoreMarkers (splitOn ''<SPLIT>'' (markSplits (protect text)))))"

subsection \<open>\<^verbatim>\<open>extractWords\<close>\<close>

definition bracketRe :: regex where \<comment> \<open>\<^verbatim>\<open>/[<>{}[\]]/\<close>\<close>
  "bracketRe = oneOf ''<>{}[]''"

definition UNITS :: "string list" where
  "UNITS = [''%'', ''px'', ''em'', ''rem'', ''pt'', ''cm'', ''mm'', ''in'', ''kg'', ''lb'', ''oz'',
            ''km'', ''mi'', ''mph'', ''fps'']"

definition numberRe :: regex where
  \<comment> \<open>\<^verbatim>\<open>/\b\d+([.,]\d+)*\s*(%|px|...|fps)?\b/\<close>, flags \<^verbatim>\<open>gi\<close>\<close>
  "numberRe =
     seqs [Bound, Plus (Cls isDigit), Star (Grp 1 (Seq (oneOf ''.,'') (Plus (Cls isDigit)))),
           Star (Cls isSpace), Opt (Grp 2 (alts (map lit UNITS))), Bound]"

definition nonWordRe :: regex where \<comment> \<open>\<^verbatim>\<open>/[^\w\s'-]/\<close>\<close>
  "nonWordRe = Cls (\<lambda>c. \<not> (isWordChar c \<or> isSpace c \<or> c = CHR 0x27 \<or> c = CHR ''-''))"

definition startsWithLetterRe :: regex where \<comment> \<open>\<^verbatim>\<open>/^[a-z]/\<close>, flag \<^verbatim>\<open>i\<close>\<close>
  "startsWithLetterRe = Seq Bol (Cls isLowerAZ)"

definition letterRe :: regex where \<comment> \<open>\<^verbatim>\<open>/[a-z]/\<close>, flags \<^verbatim>\<open>gi\<close>\<close>
  "letterRe = Cls isLowerAZ"

definition onlyMarksRe :: regex where \<comment> \<open>\<^verbatim>\<open>/^[-']+$/\<close>\<close>
  "onlyMarksRe = seqs [Bol, Plus (Cls (\<lambda>c. c = CHR ''-'' \<or> c = CHR 0x27)), Eol]"

text \<open>The function given to \<^verbatim>\<open>flatMap\<close>.\<close>

definition splitCompound :: "string \<Rightarrow> string list" where
  "splitCompound word0 =
     (let word = trim (toLowerCase word0)
      in if CHR ''-'' \<in> set word \<and> CHR 0x27 \<notin> set word
         then filter (\<lambda>w. 0 < length w) (splitOn ''-'' word)
         else [word])"

text \<open>The function given to \<^verbatim>\<open>filter\<close>, with its four early returns.\<close>

definition isWord :: "string \<Rightarrow> bool" where
  "isWord w =
     (if length w < 2 then False
      else if \<not> test flagI startsWithLetterRe w then False
      else (let letterCount = length (matchAll flagI letterRe w)
        in if of_nat letterCount < jsMul (of_nat (length w)) (1 / 2) then False
           else if test noFlags onlyMarksRe w then False
           else True))"

definition cleanText :: "string \<Rightarrow> string" where
  "cleanText text =
     (let cleaned = replaceAll noFlags urlRe (fixed []) text;
          cleaned = replaceAll noFlags emailRe (fixed []) cleaned;
          cleaned = replaceAll noFlags bracketRe (fixed '' '') cleaned;
          cleaned = replaceAll flagI numberRe (fixed []) cleaned;
          cleaned = replaceAll noFlags nonWordRe (fixed '' '') cleaned;
          cleaned = replaceAll noFlags whitespaceRe (fixed '' '') cleaned
      in trim cleaned)"

definition extractWords :: "string \<Rightarrow> string list" where
  "extractWords text =
     (if text = [] then []
      else filter isWord (concat (map splitCompound (splitRe noFlags whitespaceRe (cleanText text)))))"

subsection \<open>Metrics\<close>

record ComplexWordData =
  cw_words :: "string list"
  cw_count :: nat
  cw_ratio :: rat

text \<open>The function given to \<^verbatim>\<open>filter\<close>; \<^verbatim>\<open>syllables >= 3\<close> is false of a value that is
  not a number.\<close>

definition isComplexWord :: "string \<Rightarrow> bool" where
  "isComplexWord word =
     (if length word < 6 then False
      else if word \<in> set COMMON_POLYSYLLABIC then False
      else (case countSyllables word of Count n \<Rightarrow> 3 \<le> n | NonNumeric \<Rightarrow> False))"

text \<open>\<^verbatim>\<open>[...new Set(xs)]\<close>: the first occurrence of each element, in order.\<close>

definition uniqueInOrder :: "'a list \<Rightarrow> 'a list" where
  "uniqueInOrder xs = rev (remdups (rev xs))"

definition identifyComplexWords :: "string list \<Rightarrow> ComplexWordData" where
  "identifyComplexWords words =
     (let complexWords = filter isComplexWord words;
          uniqueComplexWords = uniqueInOrder complexWords
      in \<lparr>cw_words = uniqueComplexWords,
          cw_count = length complexWords,
          cw_ratio = (if 0 < length words
                      then jsDiv (of_nat (length complexWords)) (of_nat (length words)) else 0)\<rparr>)"

text \<open>
  \<^verbatim>\<open>calculateFleschKincaid(totalWords, totalSentences, totalSyllables)\<close>. The first two
  arguments are lengths of arrays. The third is the sum of the syllable counts: when it is
  not a number, the division gives \<^verbatim>\<open>NaN\<close>, and so do \<^verbatim>\<open>Math.round\<close> and
  \<^verbatim>\<open>Math.max\<close> after it.
\<close>

definition calculateFleschKincaid :: "nat \<Rightarrow> nat \<Rightarrow> syllables \<Rightarrow> number" where
  "calculateFleschKincaid totalWords totalSentences totalSyllables =
     (if totalSentences = 0 \<or> totalWords = 0 then Finite 0
      else (case totalSyllables of
          NonNumeric \<Rightarrow> NaN
        | Count syl \<Rightarrow>
            (let avgWordsPerSentence = jsDiv (of_nat totalWords) (of_nat totalSentences);
                 avgSyllablesPerWord = jsDiv (of_int syl) (of_nat totalWords);
                 gradeLevel = jsSub (jsAdd (jsMul (fl (39 / 100)) avgWordsPerSentence)
                                           (jsMul (fl (118 / 10)) avgSyllablesPerWord))
                                    (fl (1559 / 100))
             in Finite (max 0 (roundTenth gradeLevel)))))"

record ReadingTime =
  minutes :: nat
  wpm :: nat
  formatted :: string

definition calculateReadingTime :: "nat \<Rightarrow> string \<Rightarrow> ReadingTime" where
  "calculateReadingTime wordCount level =
     (if wordCount = 0 then \<lparr>minutes = 0, wpm = 0, formatted = ''< 1 min''\<rparr>
      else (let baseWPM = (case map_of READING_SPEEDS (toUpperCase level) of
                             Some v \<Rightarrow> v | None \<Rightarrow> READING_SPEEDS_MEDIUM);
                exactMinutes = jsDiv (of_nat wordCount) (of_nat baseWPM);
                minutes = nat (mathRound exactMinutes);
                formatted = (if exactMinutes < 1 / 2 then ''< 1 min''
                             else if minutes = 1 then ''1 min''
                             else showNat minutes @ '' mins'')
            in \<lparr>minutes = minutes, wpm = baseWPM, formatted = formatted\<rparr>))"

subsection \<open>Classification\<close>

text \<open>The entries of \<^verbatim>\<open>LABELS\<close>, and the two objects that extend them by one field.\<close>

record Label =
  label :: string
  colorClass :: string

record SentenceQuality = Label +
  quality :: string

record WordCountCategory = Label +
  category :: string

definition classifySentenceQuality :: "rat \<Rightarrow> SentenceQuality" where
  "classifySentenceQuality avgLength =
     (if avgLength < 8
      then \<lparr>label = ''Too Short'', colorClass = ''quality-warning'', quality = ''short''\<rparr>
      else if avgLength \<le> 12
      then \<lparr>label = ''Short'', colorClass = ''quality-good'', quality = ''short-ok''\<rparr>
      else if avgLength \<le> 18
      then \<lparr>label = ''Optimal'', colorClass = ''quality-optimal'', quality = ''optimal''\<rparr>
      else if avgLength \<le> 25
      then \<lparr>label = ''Long'', colorClass = ''quality-warning'', quality = ''long''\<rparr>
      else \<lparr>label = ''Too Long'', colorClass = ''quality-bad'', quality = ''too-long''\<rparr>)"

definition classifyWordCount :: "nat \<Rightarrow> WordCountCategory" where
  "classifyWordCount wordCount =
     (if wordCount < 300
      then \<lparr>label = ''Quick Read'', colorClass = ''length-quick'', category = ''quick''\<rparr>
      else if wordCount \<le> 700
      then \<lparr>label = ''Short'', colorClass = ''length-short'', category = ''short''\<rparr>
      else if wordCount \<le> 1400
      then \<lparr>label = ''Medium'', colorClass = ''length-medium'', category = ''medium''\<rparr>
      else if wordCount \<le> 2500
      then \<lparr>label = ''Long Read'', colorClass = ''length-long'', category = ''long''\<rparr>
      else \<lparr>label = ''In-Depth'', colorClass = ''length-deep'', category = ''deep''\<rparr>)"

text \<open>
  \<^verbatim>\<open>classifyReadability(avgSentenceLength, complexRatio, fkGrade = null, wordCount = 0)\<close>:
  \<open>None\<close> is \<^verbatim>\<open>null\<close>.
\<close>

definition classifyReadability :: "rat \<Rightarrow> rat \<Rightarrow> number option \<Rightarrow> nat \<Rightarrow> string" where
  "classifyReadability avgSentenceLength complexRatio fkGrade wordCount =
     (if wordCount < 100 then ''Medium''
      else (case fkGrade of
          Some g \<Rightarrow>
            (let level = (if numLe g 6 then ''Easy''
                          else if numLe g 12 then ''Medium''
                          else ''Hard'')
             in if wordCount < 300 \<and> level = ''Hard'' \<and> numLt g 15 then ''Medium'' else level)
        | None \<Rightarrow>
            (let score = (0 :: nat);
                 score = score + (if avgSentenceLength \<le> SENTENCE_LENGTH_EASY then 0
                                  else if avgSentenceLength \<le> SENTENCE_LENGTH_MEDIUM then 1
                                  else 2);
                 score = score + (if complexRatio \<le> COMPLEX_RATIO_EASY then 0
                                  else if complexRatio \<le> COMPLEX_RATIO_HARD then 1
                                  else 2);
                 result = (if score \<le> 1 then ''Easy''
                           else if score \<le> 2 then ''Medium''
                           else ''Hard'')
             in if wordCount < 300 \<and> result = ''Hard'' then ''Medium'' else result)))"

subsection \<open>Issue detection\<close>

definition connectingWords :: "string list" where
  "connectingWords =
    [''however'', ''therefore'', ''moreover'', ''furthermore'', ''nevertheless'',
     ''because'', ''since'', ''although'', ''though'', ''while'', ''whereas'', ''unless'', ''until'',
     ''which'', ''who'', ''whom'', ''whose'', ''where'', ''when'', ''whether'',
     ''if'', ''provided'', ''assuming'']"

definition strongPunctuationRe :: regex where \<comment> \<open>\<^verbatim>\<open>/[;:]/\<close>\<close>
  "strongPunctuationRe = oneOf '';:''"

definition connectiveRe :: "string \<Rightarrow> regex" where
  \<comment> \<open>\<^verbatim>\<open>(?:^|[,;]\s+)\bword\b\<close>, flags \<^verbatim>\<open>gi\<close>\<close>
  "connectiveRe word =
     seqs [Alt Bol (Seq (oneOf '',;'') (Plus (Cls isSpace))), Bound, lit word, Bound]"

definition thatRe :: regex where \<comment> \<open>\<^verbatim>\<open>/\b(?<!so\s|such\s)that\b/\<close>, flags \<^verbatim>\<open>gi\<close>\<close>
  "thatRe =
     seqs [Bound,
           NotBehind (Alt (Seq (lit ''so'') (Cls isSpace)) (Seq (lit ''such'') (Cls isSpace))),
           lit ''that'', Bound]"

definition countClauses :: "string \<Rightarrow> nat" where
  "countClauses sentence =
     (let clauseCount = (1 :: nat);
          strongPunctuation = matchAll noFlags strongPunctuationRe sentence;
          clauseCount = clauseCount + length strongPunctuation;
          lowerSentence = toLowerCase sentence;
          clauseCount = foldl (\<lambda>clauseCount word.
                                 clauseCount + length (matchAll flagI (connectiveRe word) lowerSentence))
                              clauseCount connectingWords;
          thatMatches = matchAll flagI thatRe lowerSentence;
          clauseCount = clauseCount + min (length thatMatches) 3
      in clauseCount)"

record ComplexSentenceIssue =
  cs_text :: string
  clauseCount :: nat
  cs_wordCount :: nat
  cs_index :: nat
  paragraphIndex :: nat
  isComplex :: bool

text \<open>
  The two nested \<^verbatim>\<open>forEach\<close> loops of \<^verbatim>\<open>identifyComplexSentences\<close>. Their state is the
  array \<^verbatim>\<open>complexSentences\<close> and the counter \<^verbatim>\<open>globalSentenceIndex\<close>.
\<close>

fun sentenceLoop ::
  "nat \<Rightarrow> string list \<Rightarrow> ComplexSentenceIssue list \<times> nat \<Rightarrow> ComplexSentenceIssue list \<times> nat" where
  "sentenceLoop pIndex [] (complexSentences, globalSentenceIndex) =
     (complexSentences, globalSentenceIndex)"
| "sentenceLoop pIndex (sentence # rest) (complexSentences, globalSentenceIndex) =
     (let clauseCount = countClauses sentence;
          words = extractWords sentence
      in sentenceLoop pIndex rest
           (if 3 \<le> clauseCount \<and> 20 \<le> length words
            then complexSentences @
                   [\<lparr>cs_text = sentence, clauseCount = clauseCount, cs_wordCount = length words,
                     cs_index = globalSentenceIndex, paragraphIndex = pIndex, isComplex = True\<rparr>]
            else complexSentences,
            globalSentenceIndex + 1))"

fun paragraphLoop ::
  "nat \<Rightarrow> string list \<Rightarrow> ComplexSentenceIssue list \<times> nat \<Rightarrow> ComplexSentenceIssue list \<times> nat" where
  "paragraphLoop pIndex [] st = st"
| "paragraphLoop pIndex (paragraphText # rest) st =
     paragraphLoop (pIndex + 1) rest (sentenceLoop pIndex (extractSentences paragraphText) st)"

definition identifyComplexSentences :: "string list \<Rightarrow> ComplexSentenceIssue list" where
  "identifyComplexSentences paragraphs = fst (paragraphLoop 0 paragraphs ([], 0))"

record DenseParagraphIssue =
  dp_text :: string
  dp_index :: nat
  dp_wordCount :: nat
  dp_sentenceCount :: nat
  dp_avgSentenceLength :: rat
  isDense :: bool

text \<open>The function given to \<^verbatim>\<open>map\<close>.\<close>

definition describeParagraph :: "string \<Rightarrow> nat \<Rightarrow> DenseParagraphIssue" where
  "describeParagraph para index =
     (let words = extractWords para;
          sentences = extractSentences para;
          avgSentenceLength = (if 0 < length sentences
                               then jsDiv (of_nat (length words)) (of_nat (length sentences))
                               else 0);
          isDenseByLength = (PARAGRAPH_DENSITY_DENSE \<le> length words
                             \<and> PARAGRAPH_DENSITY_MIN_SENTENCES \<le> length sentences);
          isVeryLong = (150 \<le> length words);
          isComplexAndLong = (80 \<le> length words \<and> 25 \<le> avgSentenceLength)
      in \<lparr>dp_text = para, dp_index = index, dp_wordCount = length words,
          dp_sentenceCount = length sentences,
          dp_avgSentenceLength = roundTenth avgSentenceLength,
          isDense = (isDenseByLength \<or> isVeryLong \<or> isComplexAndLong)\<rparr>)"

definition identifyDenseParagraphs :: "string list \<Rightarrow> DenseParagraphIssue list" where
  "identifyDenseParagraphs paragraphs =
     filter isDense (map (\<lambda>(index, para). describeParagraph para index) (enumerate 0 paragraphs))"

subsection \<open>\<^verbatim>\<open>analyzeText\<close>\<close>

text \<open>
  JavaScript does not check the type of the argument \<^verbatim>\<open>text\<close>. The values a caller can
  pass are the primitive values below. \<^verbatim>\<open>extractSentences\<close> and \<^verbatim>\<open>extractWords\<close> both
  start with \<^verbatim>\<open>if (!text) return []\<close>, which every falsy value takes; a truthy value that
  is no string has no method \<^verbatim>\<open>trim\<close> or \<^verbatim>\<open>replace\<close>, and the call of it throws a
  \<^verbatim>\<open>TypeError\<close>.
\<close>

datatype jsvalue = Undefined | Null | Boolean bool | Number number | String string

fun falsy :: "jsvalue \<Rightarrow> bool" where
  "falsy Undefined = True"
| "falsy Null = True"
| "falsy (Boolean b) = (\<not> b)"
| "falsy (Number n) = (n = NaN \<or> n = Finite 0)"
| "falsy (String s) = (s = [])"

datatype exception = TypeError string

definition extractSentencesOf :: "jsvalue \<Rightarrow> exception + string list" where
  "extractSentencesOf v =
     (if falsy v then Inr []
      else (case v of
          String text \<Rightarrow> Inr (extractSentences text)
        | _ \<Rightarrow> Inl (TypeError ''text.trim is not a function'')))"

definition extractWordsOf :: "jsvalue \<Rightarrow> exception + string list" where
  "extractWordsOf v =
     (if falsy v then Inr []
      else (case v of
          String text \<Rightarrow> Inr (extractWords text)
        | _ \<Rightarrow> Inl (TypeError ''text.replace is not a function'')))"

record Issues =
  complexSentences :: "ComplexSentenceIssue list"
  denseParagraphs :: "DenseParagraphIssue list"

record AnalysisResult =
  level :: string
  grade :: number
  readingTime :: ReadingTime
  wordCount :: nat
  wordCountCategory :: WordCountCategory
  sentenceCount :: nat
  avgSentenceLength :: rat
  sentenceQuality :: SentenceQuality
  isLowConfidence :: bool
  issues :: Issues
  issueCount :: nat

text \<open>The body of \<^verbatim>\<open>analyzeText\<close> once sentences and words are extracted: lines 607 to 653.\<close>

definition analyze :: "string list \<Rightarrow> string list \<Rightarrow> string list \<Rightarrow> AnalysisResult" where
  "analyze sentences words paragraphs =
     (let totalSyllables = foldl (\<lambda>sum word. plusSyllables sum (countSyllables word)) (Count 0) words;
          complexWordData = identifyComplexWords words;
          avgSentenceLength = (if 0 < length sentences
                               then jsDiv (of_nat (length words)) (of_nat (length sentences))
                               else 0);
          fkGrade = calculateFleschKincaid (length words) (length sentences) totalSyllables;
          level = classifyReadability avgSentenceLength (cw_ratio complexWordData) (Some fkGrade)
                    (length words);
          readingTime = calculateReadingTime (length words) level;
          sentenceQuality = classifySentenceQuality avgSentenceLength;
          wordCountCategory = classifyWordCount (length words);
          complexSentences = identifyComplexSentences paragraphs;
          denseParagraphs = identifyDenseParagraphs paragraphs
      in \<lparr>level = level,
          grade = fkGrade,
          readingTime = readingTime,
          wordCount = length words,
          wordCountCategory = wordCountCategory,
          sentenceCount = length sentences,
          avgSentenceLength = roundTenth avgSentenceLength,
          sentenceQuality = sentenceQuality,
          isLowConfidence = (length words < 100),
          issues = \<lparr>complexSentences = complexSentences, denseParagraphs = denseParagraphs\<rparr>,
          issueCount = length complexSentences + length denseParagraphs\<rparr>)"

definition analyzeText :: "jsvalue \<Rightarrow> string list \<Rightarrow> exception + AnalysisResult" where
  "analyzeText text paragraphs =
     (case extractSentencesOf text of
        Inl e \<Rightarrow> Inl e
      | Inr sentences \<Rightarrow>
          (case extractWordsOf text of
             Inl e \<Rightarrow> Inl e
           | Inr words \<Rightarrow> Inr (analyze sentences words paragraphs)))"

subsection \<open>The conditions of the specification\<close>



text \<open>A complex sentence: at least 3 clauses and at least 20 words.\<close>

definition complexEnough :: "string \<Rightarrow> bool" where
  "complexEnough sentence = (3 \<le> countClauses sentence \<and> 20 \<le> length (extractWords sentence))"

text \<open>
  A dense paragraph: 100 words and 4 sentences, or 150 words, or 80 words and an average
  sentence length of 25 (the quotient of the two counts as the source computes it, 0
  without sentences).
\<close>

definition paragraphIsDense :: "string \<Rightarrow> bool" where
  "paragraphIsDense para =
     (let w = length (extractWords para);
          s = length (extractSentences para);
          average = (if 0 < s then jsDiv (of_nat w) (of_nat s) else 0)
      in (100 \<le> w \<and> 4 \<le> s) \<or> 150 \<le> w \<or> (80 \<le> w \<and> 25 \<le> average))"

text \<open>
  Two conditions on a word in lower case without the white space around it, for the values
  of \<^verbatim>\<open>countSyllables\<close>. The word is made of three or more hyphens and of nothing else.
\<close>

definition hyphensOnly :: "string \<Rightarrow> bool" where
  "hyphensOnly word = (2 < length word \<and> (\<forall>c \<in> set word. c = CHR ''-''))"

text \<open>
  The word is \<^verbatim>\<open>constructor\<close> or \<^verbatim>\<open>__proto__\<close>, or it has a hyphen and one of the parts between
  its hyphens, without the white space around the part, is one of the two.
\<close>

definition namesInherited :: "string \<Rightarrow> bool" where
  "namesInherited word =
     (word \<in> set inheritedMembers
      \<or> (CHR ''-'' \<in> set word
          \<and> (\<exists>part \<in> set (splitOn ''-'' word). trim part \<in> set inheritedMembers)))"

text \<open>The inputs of the examples.\<close>

definition drSmith :: string where
  "drSmith = ''Dr. Smith went to Washington, D.C. on Monday.''"

text \<open>Three sentences: 25 words in 2 clauses, 15 words in 4 clauses, 22 words in 3 clauses.\<close>

definition sentenceA :: string where
  "sentenceA = ''Go go; go go go go go go go go go go go go go go go go go go go go go go go.''"

definition sentenceB :: string where
  "sentenceB = ''Go go; go go: go go; go go go go go go go go go.''"

definition sentenceC :: string where
  "sentenceC = ''Go go; go go: go go go go go go go go go go go go go go go go go go.''"

text \<open>A paragraph of one sentence of 80 words.\<close>

definition paragraphP :: string where
  "paragraphP =
     ''Go go go go go go go go go go go go go go go go go go go go go go go go go go go go go go go go go go go go go go go go go go go go go go go go go go go go go go go go go go go go go go go go go go go go go go go go go go go go go go go go.''"

section \<open>Properties\<close>

subsection \<open>Rounding keeps the sign\<close>

lemma pow2_pos: "0 < pow2 e"
  by (simp add: pow2_def)











subsection \<open>The grade level\<close>


subsection \<open>The difficulty level\<close>

text \<open>
  Claim C3. With at least 100 words and a grade, \<^verbatim>\<open>classifyReadability\<close> gives
  \<^verbatim>\<open>Easy\<close> up to grade 6, \<^verbatim>\<open>Medium\<close> up to grade 12 and \<^verbatim>\<open>Hard\<close> above, except that
  below 300 words a \<^verbatim>\<open>Hard\<close> with a grade under 15 becomes \<^verbatim>\<open>Medium\<close>.
\<close>

theorem classifyReadability_by_grade:
  assumes "100 \<le> wc"
  shows "classifyReadability avgLen ratio (Some (Finite g)) wc
           = (if g \<le> 6 then ''Easy''
              else if g \<le> 12 then ''Medium''
              else if wc < 300 \<and> g < 15 then ''Medium''
              else ''Hard'')"
  using assms by (simp add: classifyReadability_def Let_def)

text \<open>
  The grades at the borders, 6.0, 6.1, 12.0 and 12.1 as doubles, with 300 words, and 12.1
  and 15 with 299 words.
\<close>

theorem classifyReadability_by_grade_witness:
  "(100 :: nat) \<le> 300 \<and> (100 :: nat) \<le> 299
   \<and> classifyReadability 20 (1 / 10) (Some (Finite 6)) 300 = ''Easy''
   \<and> classifyReadability 20 (1 / 10) (Some (Finite (fl (61 / 10)))) 300 = ''Medium''
   \<and> classifyReadability 20 (1 / 10) (Some (Finite 12)) 300 = ''Medium''
   \<and> classifyReadability 20 (1 / 10) (Some (Finite (fl (121 / 10)))) 300 = ''Hard''
   \<and> classifyReadability 20 (1 / 10) (Some (Finite (fl (121 / 10)))) 299 = ''Medium''
   \<and> classifyReadability 20 (1 / 10) (Some (Finite 15)) 299 = ''Hard''"
proof -
  have a: "(100 :: nat) \<le> 300" and b: "(100 :: nat) \<le> 299" by simp_all
  have c: "6 < fl (61 / 10) \<and> fl (61 / 10) \<le> 12" by code_simp
  have d: "12 < fl (121 / 10) \<and> fl (121 / 10) < 15" by code_simp
  show ?thesis
    using c d
      classifyReadability_by_grade [OF a, of 20 "1 / 10" 6]
      classifyReadability_by_grade [OF a, of 20 "1 / 10" "fl (61 / 10)"]
      classifyReadability_by_grade [OF a, of 20 "1 / 10" 12]
      classifyReadability_by_grade [OF a, of 20 "1 / 10" "fl (121 / 10)"]
      classifyReadability_by_grade [OF b, of 20 "1 / 10" "fl (121 / 10)"]
      classifyReadability_by_grade [OF b, of 20 "1 / 10" 15]
    by simp
qed

subsection \<open>The result of \<^verbatim>\<open>analyzeText\<close>\<close>

text \<open>A text whose words can be extracted is analysed: the call returns.\<close>

lemma analyzeText_returns:
  assumes "extractWordsOf text = Inr words"
  shows "\<exists>sentences. extractSentencesOf text = Inr sentences
           \<and> analyzeText text paragraphs = Inr (analyze sentences words paragraphs)"
  using assms
  by (cases "text")
    (auto simp add: analyzeText_def extractWordsOf_def extractSentencesOf_def split: if_splits)

lemma analyze_fields:
  "wordCount (analyze sentences words paragraphs) = length words"
  "sentenceCount (analyze sentences words paragraphs) = length sentences"
  "isLowConfidence (analyze sentences words paragraphs) = (length words < 100)"
  "grade (analyze sentences words paragraphs)
     = calculateFleschKincaid (length words) (length sentences)
         (foldl (\<lambda>sum word. plusSyllables sum (countSyllables word)) (Count 0) words)"
  "level (analyze sentences words paragraphs)
     = classifyReadability
         (if 0 < length sentences then jsDiv (of_nat (length words)) (of_nat (length sentences)) else 0)
         (cw_ratio (identifyComplexWords words))
         (Some (calculateFleschKincaid (length words) (length sentences)
                  (foldl (\<lambda>sum word. plusSyllables sum (countSyllables word)) (Count 0) words)))
         (length words)"
  "issues (analyze sentences words paragraphs)
     = \<lparr>complexSentences = identifyComplexSentences paragraphs,
        denseParagraphs = identifyDenseParagraphs paragraphs\<rparr>"
  "issueCount (analyze sentences words paragraphs)
     = length (identifyComplexSentences paragraphs) + length (identifyDenseParagraphs paragraphs)"
  by (simp_all add: analyze_def Let_def)

text \<open>
  Claim C1. Every call of \<^verbatim>\<open>analyzeText\<close> whose text has fewer than 100 extracted words
  returns a result with level \<^verbatim>\<open>Medium\<close> and \<^verbatim>\<open>isLowConfidence\<close> true, whatever the
  grade is.
\<close>

theorem analyzeText_short_text:
  assumes "extractWordsOf text = Inr words" and "length words < 100"
  shows "\<exists>r. analyzeText text paragraphs = Inr r \<and> wordCount r = length words
           \<and> level r = ''Medium'' \<and> isLowConfidence r = True"
proof -
  from analyzeText_returns [OF assms(1)] obtain sentences
    where "analyzeText text paragraphs = Inr (analyze sentences words paragraphs)" by blast
  moreover have "level (analyze sentences words paragraphs) = ''Medium''"
    using assms(2) by (simp add: analyze_fields classifyReadability_def)
  ultimately show ?thesis
    using assms(2) by (simp add: analyze_fields)
qed

theorem analyzeText_short_text_witness:
  "extractWordsOf (String ''Go on now.'') = Inr [''go'', ''on'', ''now'']
   \<and> length [''go'', ''on'', ''now''] < (100 :: nat)
   \<and> (\<exists>r. analyzeText (String ''Go on now.'') [''Go on now.''] = Inr r \<and> wordCount r = 3
          \<and> level r = ''Medium'' \<and> isLowConfidence r = True)"
proof -
  have h: "extractWordsOf (String ''Go on now.'') = Inr [''go'', ''on'', ''now'']"
    by code_simp
  have l: "length [''go'', ''on'', ''now''] < (100 :: nat)"
    by simp
  show ?thesis
    using h l analyzeText_short_text [OF h l, of "[''Go on now.'']"] by (simp add: numeral_3_eq_3)
qed

text \<open>
  Claim C10. The result of every call of \<^verbatim>\<open>analyzeText\<close> that returns has a field
  \<^verbatim>\<open>issueCount\<close>, the number of complex sentences plus the number of dense paragraphs
  in \<^verbatim>\<open>issues\<close>.
\<close>

theorem analyzeText_issueCount:
  assumes "analyzeText text paragraphs = Inr r"
  shows "issueCount r = length (complexSentences (issues r)) + length (denseParagraphs (issues r))"
proof -
  from assms obtain sentences words where "r = analyze sentences words paragraphs"
    by (auto simp add: analyzeText_def split: sum.splits)
  then show ?thesis by (simp add: analyze_fields)
qed

subsection \<open>Arguments that are no strings\<close>

text \<open>
  Claim C8 says that a \<^verbatim>\<open>null\<close> or non-string text makes \<^verbatim>\<open>analyzeText\<close> fail with
  an invalid-argument error. The source has no such error: for \<^verbatim>\<open>null\<close> the two guards
  \<^verbatim>\<open>if (!text) return []\<close> give empty lists, and the call returns the result of an empty
  text.
\<close>

theorem analyzeText_null_counterexample:
  "analyzeText Null [] =
     Inr \<lparr>level = ''Medium'', grade = Finite 0,
          readingTime = \<lparr>minutes = 0, wpm = 0, formatted = ''< 1 min''\<rparr>,
          wordCount = 0,
          wordCountCategory =
            \<lparr>label = ''Quick Read'', colorClass = ''length-quick'', category = ''quick''\<rparr>,
          sentenceCount = 0, avgSentenceLength = 0,
          sentenceQuality =
            \<lparr>label = ''Too Short'', colorClass = ''quality-warning'', quality = ''short''\<rparr>,
          isLowConfidence = True,
          issues = \<lparr>complexSentences = [], denseParagraphs = []\<rparr>, issueCount = 0\<rparr>"
  by code_simp

text \<open>
  Claim C8, amended. A falsy text (\<^verbatim>\<open>null\<close>, \<^verbatim>\<open>undefined\<close>, \<^verbatim>\<open>false\<close>, \<^verbatim>\<open>0\<close>,
  \<^verbatim>\<open>NaN\<close>, the empty string) raises nothing: the call returns the result of an empty
  text, with no word, no sentence, grade 0, level \<^verbatim>\<open>Medium\<close> and low confidence. A truthy
  text that is no string makes the call throw the \<^verbatim>\<open>TypeError\<close> of the run time,
  \<^verbatim>\<open>text.trim is not a function\<close>.
\<close>

theorem analyzeText_malformed_text:
  "(falsy v \<longrightarrow>
      (\<exists>r. analyzeText v paragraphs = Inr r \<and> wordCount r = 0 \<and> sentenceCount r = 0
           \<and> grade r = Finite 0 \<and> level r = ''Medium'' \<and> isLowConfidence r = True))
   \<and> (\<not> falsy v \<and> (\<forall>s. v \<noteq> String s) \<longrightarrow>
        analyzeText v paragraphs = Inl (TypeError ''text.trim is not a function''))"
proof (intro conjI impI)
  assume "falsy v"
  then have "analyzeText v paragraphs = Inr (analyze [] [] paragraphs)"
    by (simp add: analyzeText_def extractSentencesOf_def extractWordsOf_def)
  moreover have "level (analyze [] [] paragraphs) = ''Medium''"
    by (simp add: analyze_fields classifyReadability_def)
  moreover have "grade (analyze [] [] paragraphs) = Finite 0"
    by (simp add: analyze_fields calculateFleschKincaid_def)
  ultimately show "\<exists>r. analyzeText v paragraphs = Inr r \<and> wordCount r = 0 \<and> sentenceCount r = 0
           \<and> grade r = Finite 0 \<and> level r = ''Medium'' \<and> isLowConfidence r = True"
    by (simp add: analyze_fields)
next
  assume "\<not> falsy v \<and> (\<forall>s. v \<noteq> String s)"
  then show "analyzeText v paragraphs = Inl (TypeError ''text.trim is not a function'')"
    by (cases v) (simp_all add: analyzeText_def extractSentencesOf_def)
qed

theorem analyzeText_malformed_text_witness:
  "falsy Null
   \<and> (\<exists>r. analyzeText Null [] = Inr r \<and> wordCount r = 0 \<and> sentenceCount r = 0
          \<and> grade r = Finite 0 \<and> level r = ''Medium'' \<and> isLowConfidence r = True)
   \<and> \<not> falsy (Number (Finite 42))
   \<and> analyzeText (Number (Finite 42)) [] = Inl (TypeError ''text.trim is not a function'')"
  using analyzeText_malformed_text [of Null "[]"]
    analyzeText_malformed_text [of "Number (Finite 42)" "[]"]
  by simp

subsection \<open>Syllables\<close>







text \<open>The pieces of \<^verbatim>\<open>split\<close> do not hold the separator, and hold every other character.\<close>

lemma splitFrom_no_separator:
  "p \<in> set (splitFrom [c] acc s) \<Longrightarrow> c \<notin> set acc \<Longrightarrow> c \<notin> set p"
proof (induction s arbitrary: acc)
  case Nil
  then show ?case by simp
next
  case (Cons x xs)
  show ?case
  proof (cases "x = c")
    case True
    with Cons.prems(1) have "p = rev acc \<or> p \<in> set (splitFrom [c] [] xs)"
      by (simp add: startsWith_def)
    then show ?thesis using Cons.prems(2) Cons.IH [of "[]"] by auto
  next
    case False
    with Cons.prems(1) have "p \<in> set (splitFrom [c] (x # acc) xs)"
      by (simp add: startsWith_def)
    then show ?thesis using Cons.IH [of "x # acc"] Cons.prems(2) False by auto
  qed
qed

lemma splitFrom_covers:
  "x \<in> set acc \<union> set s \<Longrightarrow> x \<noteq> c \<Longrightarrow> \<exists>p \<in> set (splitFrom [c] acc s). x \<in> set p"
proof (induction s arbitrary: acc)
  case Nil
  then show ?case by simp
next
  case (Cons y ys)
  show ?case
  proof (cases "y = c")
    case True
    from Cons.prems True have "x \<in> set acc \<or> x \<in> set ys" by auto
    then show ?thesis
    proof
      assume "x \<in> set acc"
      with True show ?thesis by (simp add: startsWith_def)
    next
      assume "x \<in> set ys"
      then have "\<exists>p \<in> set (splitFrom [c] [] ys). x \<in> set p"
        using Cons.IH [of "[]"] Cons.prems(2) by simp
      with True show ?thesis by (simp add: startsWith_def)
    qed
  next
    case False
    from Cons.prems have "x \<in> set (y # acc) \<union> set ys" by auto
    then have "\<exists>p \<in> set (splitFrom [c] (y # acc) ys). x \<in> set p"
      using Cons.IH [of "y # acc"] Cons.prems(2) by blast
    with False show ?thesis by (simp add: startsWith_def)
  qed
qed





lemma inherited_no_key:
  "map_of SYLLABLE_OVERRIDES ''constructor'' = None \<and> map_of SYLLABLE_OVERRIDES ''__proto__'' = None"
  by code_simp

lemma inherited_member:
  assumes "k \<in> set inheritedMembers"
  shows "2 < length k" and "CHR ''-'' \<notin> set k" and "map_of SYLLABLE_OVERRIDES k = None"
    and "overrideLookup k = Some NonNumeric"
  using assms inherited_no_key by (auto simp add: inheritedMembers_def overrideLookup_def)


lemma splitFrom_part_set:
  "p \<in> set (splitFrom sep acc s) \<Longrightarrow> set p \<subseteq> set acc \<union> set s"
proof (induction sep acc s rule: splitFrom.induct)
  case (1 sep acc)
  then show ?case by simp
next
  case (2 sep acc x xs)
  show ?case
  proof (cases "sep \<noteq> [] \<and> startsWith (x # xs) sep")
    case True
    with "2.prems" have "p = rev acc \<or> p \<in> set (splitFrom sep [] (drop (length sep - 1) xs))"
      by simp
    then show ?thesis
    proof
      assume "p = rev acc"
      then show ?thesis by auto
    next
      assume "p \<in> set (splitFrom sep [] (drop (length sep - 1) xs))"
      with "2.IH"(1) True have "set p \<subseteq> set [] \<union> set (drop (length sep - 1) xs)"
        by blast
      moreover have "set (drop (length sep - 1) xs) \<subseteq> set xs"
        by (rule set_drop_subset)
      ultimately show ?thesis by auto
    qed
  next
    case False
    with "2.prems" have "p \<in> set (splitFrom sep (x # acc) xs)"
      by (simp split: if_splits)
    with "2.IH"(2) False have "set p \<subseteq> set (x # acc) \<union> set xs"
      by blast
    then show ?thesis by auto
  qed
qed

lemma splitOn_part_set: "p \<in> set (splitOn sep s) \<Longrightarrow> set p \<subseteq> set s"
  using splitFrom_part_set [of p sep "[]" s] by (simp add: splitOn_def)


text \<open>The parts of a word are all empty when the word is made of hyphens, and only then.\<close>

lemma parts_of_hyphens:
  assumes "\<forall>c \<in> set s. c = x" and "p \<in> set (splitOn [x] s)"
  shows "p = []"
proof -
  from assms(2) have "x \<notin> set p"
    using splitFrom_no_separator [of p x "[]" s] by (simp add: splitOn_def)
  moreover from assms have "\<forall>c \<in> set p. c = x"
    using splitOn_part_set [of p "[x]" s] by blast
  ultimately show ?thesis by (cases p) auto
qed

lemma part_of_letter:
  assumes "c \<in> set s" and "c \<noteq> x"
  shows "\<exists>p \<in> set (splitOn [x] s). p \<noteq> []"
proof -
  from assms obtain p where "p \<in> set (splitOn [x] s)" and "c \<in> set p"
    using splitFrom_covers [of c "[]" s x] by (auto simp add: splitOn_def)
  then show ?thesis by (intro bexI [of _ p]) auto
qed





text \<open>A part that names an inherited member.\<close>

lemma trim_empty_no_member: "trim [] \<notin> set inheritedMembers"
  by (simp add: trim_def inheritedMembers_def)


text \<open>The three values of \<^verbatim>\<open>countSyllables\<close>.\<close>

lemma hyphensOnly_all: "hyphensOnly k \<Longrightarrow> \<forall>c \<in> set k. c = CHR ''-''"
  by (simp add: hyphensOnly_def)

lemma hyphensOnly_long: "hyphensOnly k \<Longrightarrow> 2 < length k"
  by (simp add: hyphensOnly_def)

lemma hyphensOnly_hyphen:
  assumes "hyphensOnly k"
  shows "CHR ''-'' \<in> set k"
proof -
  from hyphensOnly_long [OF assms] obtain x xs where k: "k = x # xs"
    by (cases k) simp_all
  then have "x \<in> set k" by simp
  with hyphensOnly_all [OF assms] have "x = CHR ''-''" by (rule bspec)
  with \<open>x \<in> set k\<close> show ?thesis by simp
qed


lemma hyphensOnly_not_inherited: "hyphensOnly k \<Longrightarrow> \<not> namesInherited k"
proof
  assume h: "hyphensOnly k" and n: "namesInherited k"
  note all = hyphensOnly_all [OF h] and hyphen = hyphensOnly_hyphen [OF h]
  from n consider "k \<in> set inheritedMembers"
    | part where "part \<in> set (splitOn ''-'' k)" and "trim part \<in> set inheritedMembers"
    unfolding namesInherited_def by auto
  then show False
  proof cases
    case 1
    from inherited_member(2) [OF 1] hyphen show False by simp
  next
    case 2
    from all 2(1) have "part = []" by (rule parts_of_hyphens)
    with 2(2) trim_empty_no_member show False by simp
  qed
qed






text \<open>
  The value for a word that names an inherited member of the override table is the member,
  no number; so it is when a part of the word names one, also with white space around it.
\<close>

lemma countSyllables_constructor:
  "countSyllables ''constructor'' = NonNumeric \<and> countSyllables ''copy-constructor'' = NonNumeric
   \<and> countSyllables ''x- constructor'' = NonNumeric"
  by code_simp



subsection \<open>Sentences of the examples\<close>

lemma sentences_goOnNow: "extractSentences ''Go on now.'' = [''Go on now.'']"
  by code_simp

lemma words_goOnNow: "extractWords ''Go on now.'' = [''go'', ''on'', ''now'']"
  by code_simp

lemma sentences_sentenceA: "extractSentences sentenceA = [sentenceA]"
  by code_simp

lemma clauses_sentenceA: "countClauses sentenceA = 2"
  by code_simp

lemma words_sentenceA: "length (extractWords sentenceA) = 25"
  by code_simp

lemma sentences_sentenceB: "extractSentences sentenceB = [sentenceB]"
  by code_simp

lemma clauses_sentenceB: "countClauses sentenceB = 4"
  by code_simp

lemma words_sentenceB: "length (extractWords sentenceB) = 15"
  by code_simp

lemma sentences_sentenceC: "extractSentences sentenceC = [sentenceC]"
  by code_simp

lemma clauses_sentenceC: "countClauses sentenceC = 3"
  by code_simp

lemma words_sentenceC: "length (extractWords sentenceC) = 22"
  by code_simp

lemma sentences_paragraphP: "extractSentences paragraphP = [paragraphP]"
  by code_simp

lemma words_paragraphP: "length (extractWords paragraphP) = 80"
  by code_simp

lemma quotient_80: "jsDiv 80 1 = 80 \<and> roundTenth 80 = 80"
  by code_simp

lemma quotient_3: "jsDiv 3 1 = 3 \<and> roundTenth 3 = 3"
  by code_simp

subsection \<open>Complex sentences\<close>

lemma sentenceLoop_texts:
  "map cs_text (fst (sentenceLoop p ss (out, g))) = map cs_text out @ filter complexEnough ss"
  by (induction ss arbitrary: out g) (simp_all add: Let_def complexEnough_def)

lemma paragraphLoop_texts:
  "map cs_text (fst (paragraphLoop p ps st))
     = map cs_text (fst st) @ filter complexEnough (concat (map extractSentences ps))"
proof (induction ps arbitrary: p st)
  case Nil
  then show ?case by simp
next
  case (Cons para ps)
  obtain out g where st: "st = (out, g)" by (cases st)
  show ?case
    by (simp add: Cons.IH st sentenceLoop_texts)
qed

text \<open>
  Claim C4. The sentences that \<^verbatim>\<open>identifyComplexSentences\<close> emits are, in order, the
  sentences of the paragraphs that have at least 3 clauses and at least 20 extracted words:
  a sentence is emitted if and only if both hold.
\<close>

theorem identifyComplexSentences_iff:
  "map cs_text (identifyComplexSentences paragraphs)
     = filter complexEnough (concat (map extractSentences paragraphs))"
  by (simp add: identifyComplexSentences_def paragraphLoop_texts)

text \<open>
  The three cases of the specification: 2 clauses and 25 words, not flagged; 4 clauses and
  15 words, not flagged; 3 clauses and 22 words, flagged.
\<close>

lemma identifyComplexSentences_example:
  "identifyComplexSentences [sentenceA, sentenceB, sentenceC]
     = [\<lparr>cs_text = sentenceC, clauseCount = 3, cs_wordCount = 22, cs_index = 2,
         paragraphIndex = 2, isComplex = True\<rparr>]"
  by (simp add: identifyComplexSentences_def Let_def
      sentences_sentenceA clauses_sentenceA words_sentenceA
      sentences_sentenceB clauses_sentenceB words_sentenceB
      sentences_sentenceC clauses_sentenceC words_sentenceC)

subsection \<open>Dense paragraphs\<close>

lemma isDense_describeParagraph:
  "isDense (describeParagraph para i) = paragraphIsDense para"
  by (simp add: describeParagraph_def paragraphIsDense_def Let_def
      PARAGRAPH_DENSITY_DENSE_def PARAGRAPH_DENSITY_MIN_SENTENCES_def)

lemma describeParagraph_address:
  "dp_index (describeParagraph para i) = i" "dp_text (describeParagraph para i) = para"
  by (simp_all add: describeParagraph_def Let_def)

text \<open>
  Claim C5. The paragraphs that \<^verbatim>\<open>identifyDenseParagraphs\<close> flags are, with their
  positions and in order, the paragraphs with at least 100 words and 4 sentences, or at
  least 150 words, or at least 80 words and an average sentence length of at least 25.
\<close>

theorem identifyDenseParagraphs_iff:
  "map (\<lambda>issue. (dp_index issue, dp_text issue)) (identifyDenseParagraphs paragraphs)
     = filter (\<lambda>(i, para). paragraphIsDense para) (enumerate 0 paragraphs)"
proof -
  have "map (\<lambda>issue. (dp_index issue, dp_text issue))
          (filter isDense (map (\<lambda>(i, para). describeParagraph para i) xs))
        = filter (\<lambda>(i, para). paragraphIsDense para) xs" for xs :: "(nat \<times> string) list"
    by (induction xs) (auto simp add: isDense_describeParagraph describeParagraph_address)
  then show ?thesis by (simp add: identifyDenseParagraphs_def)
qed

text \<open>A paragraph of 3 words is not dense, one sentence of 80 words is.\<close>

lemma identifyDenseParagraphs_example:
  "identifyDenseParagraphs [''Go on now.'', paragraphP]
     = [\<lparr>dp_text = paragraphP, dp_index = 1, dp_wordCount = 80, dp_sentenceCount = 1,
         dp_avgSentenceLength = 80, isDense = True\<rparr>]"
  by (simp add: identifyDenseParagraphs_def describeParagraph_def Let_def enumerate_eq_zip
      PARAGRAPH_DENSITY_DENSE_def PARAGRAPH_DENSITY_MIN_SENTENCES_def
      sentences_goOnNow words_goOnNow sentences_paragraphP words_paragraphP quotient_80 quotient_3)

subsection \<open>The average sentence length, in whole numbers\<close>

text \<open>
  The trigger \<^verbatim>\<open>avgSentenceLength >= 25\<close> compares the double quotient of two counts.
  Below \<open>2 ^ 48\<close> sentences (an array has fewer than \<open>2 ^ 32\<close> elements) the rounding of
  the quotient does not change the answer: it is that of \<open>25 * sentences \<le> words\<close>.
\<close>

lemma pow2_powi: "pow2 e = 2 powi e"
  by (simp add: pow2_def power_int_def power_inverse inverse_eq_divide power_one_over)

lemma pow2_add: "pow2 (a + b) = pow2 a * pow2 b"
  by (simp add: pow2_powi power_int_add)

lemma pow2_diff: "pow2 (a - b) = pow2 a / pow2 b"
  by (simp add: pow2_powi power_int_diff)

lemma pow2_mono: "a \<le> b \<Longrightarrow> pow2 a \<le> pow2 b"
  by (simp add: pow2_powi power_int_increasing)

lemma pow2_less_imp: "pow2 a < pow2 b \<Longrightarrow> a < b"
  using pow2_mono [of b a] by (cases "a < b") auto

lemma pow2_nat: "pow2 (int n) = 2 ^ n"
  by (simp add: pow2_def)

lemma bitlen_pow2_bounds:
  assumes "0 < p"
  shows "pow2 (bitlen p - 1) \<le> of_int p" and "of_int p < pow2 (bitlen p)"
proof -
  from bitlen_bounds [OF assms]
  have a: "2 ^ nat (bitlen p - 1) \<le> p" and b: "p < 2 ^ nat (bitlen p)" by simp_all
  have pos: "1 \<le> bitlen p" using assms by (simp add: bitlen_alt_def)
  from a have "(of_int (2 ^ nat (bitlen p - 1)) :: rat) \<le> of_int p"
    by (simp only: of_int_le_iff)
  with pos show "pow2 (bitlen p - 1) \<le> of_int p" by (simp add: pow2_def)
  from b have "(of_int p :: rat) < of_int (2 ^ nat (bitlen p))"
    by (simp only: of_int_less_iff)
  with pos show "of_int p < pow2 (bitlen p)" by (simp add: pow2_def)
qed

lemma ilog2_bounds:
  assumes "0 < x"
  shows "pow2 (ilog2 x) \<le> x" and "x < pow2 (ilog2 x + 1)"
proof -
  obtain p q where pq: "quotient_of x = (p, q)" by (cases "quotient_of x")
  then have q: "0 < q" and x: "x = of_int p / of_int q"
    by (simp_all add: quotient_of_denom_pos quotient_of_div)
  from assms x q have p: "0 < p" by (simp add: zero_less_divide_iff)
  let ?d = "bitlen p - bitlen q"
  have qr: "0 < (of_int q :: rat)" using q by simp
  have upper: "x < pow2 (?d + 1)"
  proof -
    have "of_int p < pow2 (bitlen p)" using p by (rule bitlen_pow2_bounds)
    also have "\<dots> = pow2 (?d + 1) * pow2 (bitlen q - 1)"
      by (simp add: pow2_add [symmetric])
    also have "\<dots> \<le> pow2 (?d + 1) * of_int q"
      using bitlen_pow2_bounds(1) [OF q] pow2_pos [of "?d + 1"]
      by (simp add: mult_left_mono less_imp_le)
    finally show ?thesis using qr by (simp add: x pos_divide_less_eq)
  qed
  have lower: "pow2 (?d - 1) < x"
  proof -
    have "pow2 (?d - 1) * of_int q < pow2 (?d - 1) * pow2 (bitlen q)"
      using bitlen_pow2_bounds(2) [OF q] pow2_pos [of "?d - 1"]
      by (simp add: mult_strict_left_mono)
    also have "\<dots> = pow2 (bitlen p - 1)"
      by (simp add: pow2_add [symmetric])
    also have "\<dots> \<le> of_int p" using p by (rule bitlen_pow2_bounds)
    finally show ?thesis using qr by (simp add: x pos_less_divide_eq)
  qed
  show "pow2 (ilog2 x) \<le> x"
    using lower by (simp add: ilog2_def pq Let_def less_imp_le)
  show "x < pow2 (ilog2 x + 1)"
    using upper by (simp add: ilog2_def pq Let_def not_le)
qed

lemma roundEven_ge: "of_int n \<le> y \<Longrightarrow> n \<le> roundEven y"
proof -
  assume "of_int n \<le> y"
  then have "n \<le> \<lfloor>y\<rfloor>" by (simp add: le_floor_iff)
  then show ?thesis by (auto simp add: roundEven_def Let_def)
qed

lemma roundEven_le: "y \<le> of_int n \<Longrightarrow> roundEven y \<le> n"
proof -
  assume y: "y \<le> of_int n"
  then have f: "\<lfloor>y\<rfloor> \<le> n" by (simp add: floor_le_iff) 
  show ?thesis
  proof (cases "\<lfloor>y\<rfloor> = n")
    case True
    then have "of_int n \<le> y" by (metis of_int_floor_le)
    with y have "y = of_int n" by simp
    then show ?thesis by (simp add: roundEven_def)
  next
    case False
    with f have "\<lfloor>y\<rfloor> + 1 \<le> n" by linarith
    with f show ?thesis by (auto simp add: roundEven_def Let_def)
  qed
qed

lemma roundEven_below: "y < of_int n - 1 / 2 \<Longrightarrow> roundEven y \<le> n - 1"
proof -
  assume y: "y < of_int n - 1 / 2"
  then have "y < of_int n" by simp
  then have f: "\<lfloor>y\<rfloor> \<le> n - 1" by (simp add: floor_less_iff)
  show ?thesis
  proof (cases "\<lfloor>y\<rfloor> = n - 1")
    case True
    then have "y - of_int \<lfloor>y\<rfloor> < 1 / 2" using y by simp
    with True show ?thesis by (simp add: roundEven_def Let_def)
  next
    case False
    with f have "\<lfloor>y\<rfloor> + 1 \<le> n - 1" by linarith
    with f show ?thesis by (auto simp add: roundEven_def Let_def)
  qed
qed

lemma fl_unfold:
  "0 < x \<Longrightarrow> fl x = of_int (roundEven (x / pow2 (ilog2 x - 52))) * pow2 (ilog2 x - 52)"
  by (simp add: fl_def Let_def)

text \<open>A rounded number stays between the powers of 2 around the number.\<close>

lemma fl_lower:
  assumes "0 < x"
  shows "pow2 (ilog2 x) \<le> fl x"
proof -
  let ?u = "pow2 (ilog2 x - 52)"
  have u: "0 < ?u" by (rule pow2_pos)
  have "pow2 52 = pow2 (ilog2 x) / ?u"
    by (simp add: pow2_diff pow2_pos less_imp_neq [OF pow2_pos, symmetric])
  also have "\<dots> \<le> x / ?u"
    using ilog2_bounds(1) [OF assms] u by (simp add: divide_right_mono less_imp_le)
  finally have "of_int (2 ^ 52) \<le> x / ?u" using pow2_nat [of 52] by simp
  then have "2 ^ 52 \<le> roundEven (x / ?u)" by (rule roundEven_ge)
  then have "(of_int (2 ^ 52) :: rat) \<le> of_int (roundEven (x / ?u))"
    by (simp only: of_int_le_iff)
  then have "pow2 52 * ?u \<le> of_int (roundEven (x / ?u)) * ?u"
    using u pow2_nat [of 52] by (simp add: mult_right_mono less_imp_le)
  moreover have "pow2 52 * ?u = pow2 (ilog2 x)" by (simp add: pow2_add [symmetric])
  ultimately show ?thesis using assms by (simp add: fl_unfold)
qed

lemma fl_upper:
  assumes "0 < x"
  shows "fl x \<le> pow2 (ilog2 x + 1)"
proof -
  let ?u = "pow2 (ilog2 x - 52)"
  have u: "0 < ?u" by (rule pow2_pos)
  have "x / ?u \<le> pow2 (ilog2 x + 1) / ?u"
    using ilog2_bounds(2) [OF assms] u by (simp add: divide_right_mono less_imp_le)
  also have "\<dots> = pow2 53"
    by (simp add: pow2_diff [symmetric])
  finally have "x / ?u \<le> of_int (2 ^ 53)" using pow2_nat [of 53] by simp
  then have "roundEven (x / ?u) \<le> 2 ^ 53" by (rule roundEven_le)
  then have "(of_int (roundEven (x / ?u)) :: rat) \<le> of_int (2 ^ 53)"
    by (simp only: of_int_le_iff)
  then have "of_int (roundEven (x / ?u)) * ?u \<le> pow2 53 * ?u"
    using u pow2_nat [of 53] by (simp add: mult_right_mono less_imp_le)
  moreover have "pow2 53 * ?u = pow2 (ilog2 x + 1)" by (simp add: pow2_add [symmetric] add.commute)
  ultimately show ?thesis using assms by (simp add: fl_unfold)
qed

lemma pow2_values: "pow2 4 = 16" "pow2 5 = 32" "pow2 (- 48) = 1 / 281474976710656"
  by (simp_all add: pow2_def)

lemma fl_at_least_25:
  assumes "25 \<le> x"
  shows "25 \<le> fl x"
proof -
  have x: "0 < x" using assms by simp
  have "pow2 4 < pow2 (ilog2 x + 1)"
    using ilog2_bounds(2) [OF x] assms by (simp add: pow2_values)
  then have e: "4 \<le> ilog2 x" using pow2_less_imp [of 4 "ilog2 x + 1"] by simp
  show ?thesis
  proof (cases "ilog2 x = 4")
    case True
    have "of_int (25 * 281474976710656) \<le> x / pow2 (ilog2 x - 52)"
      using assms by (simp add: True pow2_values)
    then have "25 * 281474976710656 \<le> roundEven (x / pow2 (ilog2 x - 52))"
      by (rule roundEven_ge)
    then have "(of_int (25 * 281474976710656) :: rat) \<le> of_int (roundEven (x / pow2 (ilog2 x - 52)))"
      by (simp only: of_int_le_iff)
    then show ?thesis using x by (simp add: fl_unfold True pow2_values)
  next
    case False
    with e have "5 \<le> ilog2 x" by simp
    then have "pow2 5 \<le> pow2 (ilog2 x)" by (rule pow2_mono)
    with fl_lower [OF x] show ?thesis by (simp add: pow2_values)
  qed
qed

lemma fl_below_25:
  fixes w s :: nat
  assumes s: "0 < s" "s < 2 ^ 48" and ws: "w < 25 * s"
  shows "fl (of_nat w / of_nat s) < 25"
proof (cases "w = 0")
  case True
  then show ?thesis by (simp add: fl_def)
next
  case False
  let ?x = "of_nat w / of_nat s :: rat"
  let ?S = "of_nat s :: rat"
  let ?W = "of_nat w :: rat"
  have S: "0 < ?S" using s(1) by simp
  have x: "0 < ?x" using False s by simp
  have "w + 1 \<le> 25 * s" using ws by simp
  then have "(of_nat (w + 1) :: rat) \<le> of_nat (25 * s)" by (simp only: of_nat_le_iff)
  then have W: "?W \<le> 25 * ?S - 1" by simp
  then have x25: "?x < 25" using S by (simp add: pos_divide_less_eq)
  have "pow2 (ilog2 ?x) < pow2 5"
    using ilog2_bounds(1) [OF x] x25 by (simp add: pow2_values)
  then have e: "ilog2 ?x \<le> 4" using pow2_less_imp [of "ilog2 ?x" 5] by simp
  show ?thesis
  proof (cases "ilog2 ?x = 4")
    case True
    have "s < 281474976710656" using s(2) by simp
    then have "?S < of_nat 281474976710656" by (simp only: of_nat_less_iff)
    then have SK: "?S < 281474976710656" by simp
    have "?W * 281474976710656 \<le> (25 * ?S - 1) * 281474976710656"
      using W by (simp only: mult_right_mono zero_le_numeral)
    also have "\<dots> = 25 * 281474976710656 * ?S - 281474976710656" by (simp add: algebra_simps)
    also have "\<dots> < 25 * 281474976710656 * ?S - ?S / 2" using SK S by simp
    also have "\<dots> = (of_int (25 * 281474976710656) - 1 / 2) * ?S" by (simp add: algebra_simps)
    finally have "?W * 281474976710656 / ?S < of_int (25 * 281474976710656) - 1 / 2"
      using S by (simp only: pos_divide_less_eq)
    then have "?x / pow2 (ilog2 ?x - 52) < of_int (25 * 281474976710656) - 1 / 2"
      by (simp add: True pow2_values)
    then have "roundEven (?x / pow2 (ilog2 ?x - 52)) \<le> 25 * 281474976710656 - 1"
      by (rule roundEven_below)
    then have "(of_int (roundEven (?x / pow2 (ilog2 ?x - 52))) :: rat)
        \<le> of_int (25 * 281474976710656 - 1)"
      by (simp only: of_int_le_iff)
    then show ?thesis using x by (simp add: fl_unfold True pow2_values)
  next
    case False
    with e have "ilog2 ?x + 1 \<le> 4" by simp
    then have "pow2 (ilog2 ?x + 1) \<le> pow2 4" by (rule pow2_mono)
    with fl_upper [OF x] show ?thesis by (simp add: pow2_values)
  qed
qed

lemma average_at_least_25:
  fixes w s :: nat
  assumes "0 < s" "s < 2 ^ 48"
  shows "25 \<le> jsDiv (of_nat w) (of_nat s) \<longleftrightarrow> 25 * s \<le> w"
proof (cases "25 * s \<le> w")
  case True
  then have "(of_nat (25 * s) :: rat) \<le> of_nat w" by (simp only: of_nat_le_iff)
  then have "(25 :: rat) \<le> of_nat w / of_nat s"
    using assms(1) by (simp add: pos_le_divide_eq)
  then show ?thesis using True by (simp add: jsDiv_def fl_at_least_25)
next
  case False
  then have "w < 25 * s" by simp
  from fl_below_25 [OF assms this] False show ?thesis by (simp add: jsDiv_def)
qed

lemma paragraphIsDense_exact:
  assumes "length (extractSentences para) < 2 ^ 48"
  shows "paragraphIsDense para \<longleftrightarrow>
           (let w = length (extractWords para); s = length (extractSentences para)
            in (100 \<le> w \<and> 4 \<le> s) \<or> 150 \<le> w \<or> (80 \<le> w \<and> 0 < s \<and> 25 * s \<le> w))"
proof (cases "0 < length (extractSentences para)")
  case True
  from average_at_least_25 [OF True assms] True show ?thesis
    by (simp add: paragraphIsDense_def Let_def)
next
  case False
  then show ?thesis by (simp add: paragraphIsDense_def Let_def)
qed

text \<open>
  Claim C9. For every paragraph list and every issue that \<^verbatim>\<open>identifyDenseParagraphs\<close>
  returns, \<^verbatim>\<open>index\<close> is a position of the list and the paragraph at this position is
  \<^verbatim>\<open>text\<close>.
\<close>

theorem identifyDenseParagraphs_roundtrip:
  "\<forall>issue \<in> set (identifyDenseParagraphs paragraphs).
     dp_index issue < length paragraphs \<and> paragraphs ! dp_index issue = dp_text issue"
proof
  fix issue
  assume "issue \<in> set (identifyDenseParagraphs paragraphs)"
  then obtain i para where ip: "(i, para) \<in> set (enumerate 0 paragraphs)"
    and issue: "issue = describeParagraph para i"
    by (auto simp add: identifyDenseParagraphs_def)
  from ip have "i < length paragraphs" and "paragraphs ! i = para"
    by (simp_all add: in_set_enumerate_eq)
  then show "dp_index issue < length paragraphs \<and> paragraphs ! dp_index issue = dp_text issue"
    by (simp add: issue describeParagraph_address)
qed

theorem identifyDenseParagraphs_roundtrip_witness:
  "\<lparr>dp_text = paragraphP, dp_index = 1, dp_wordCount = 80, dp_sentenceCount = 1,
     dp_avgSentenceLength = 80, isDense = True\<rparr>
     \<in> set (identifyDenseParagraphs [''Go on now.'', paragraphP])
   \<and> (1 :: nat) < length [''Go on now.'', paragraphP]
   \<and> [''Go on now.'', paragraphP] ! 1 = paragraphP"
  using identifyDenseParagraphs_roundtrip [of "[''Go on now.'', paragraphP]"]
  by (simp add: identifyDenseParagraphs_example)

subsection \<open>The issue count of an example\<close>

theorem analyzeText_issueCount_witness:
  "analyzeText (String sentenceC) [sentenceA, sentenceB, sentenceC]
     = Inr (analyze (extractSentences sentenceC) (extractWords sentenceC)
              [sentenceA, sentenceB, sentenceC])
   \<and> length (complexSentences (issues (analyze (extractSentences sentenceC) (extractWords sentenceC)
              [sentenceA, sentenceB, sentenceC]))) = 1
   \<and> length (denseParagraphs (issues (analyze (extractSentences sentenceC) (extractWords sentenceC)
              [sentenceA, sentenceB, sentenceC]))) = 0
   \<and> issueCount (analyze (extractSentences sentenceC) (extractWords sentenceC)
              [sentenceA, sentenceB, sentenceC]) = 1"
proof -
  have r: "analyzeText (String sentenceC) [sentenceA, sentenceB, sentenceC]
     = Inr (analyze (extractSentences sentenceC) (extractWords sentenceC)
              [sentenceA, sentenceB, sentenceC])"
    by (simp add: analyzeText_def extractSentencesOf_def extractWordsOf_def sentenceC_def)
  have d: "identifyDenseParagraphs [sentenceA, sentenceB, sentenceC] = []"
    by (simp add: identifyDenseParagraphs_def describeParagraph_def Let_def enumerate_eq_zip
        PARAGRAPH_DENSITY_DENSE_def PARAGRAPH_DENSITY_MIN_SENTENCES_def
        words_sentenceA words_sentenceB words_sentenceC)
  show ?thesis
    using r analyzeText_issueCount [OF r]
    by (simp add: analyze_fields identifyComplexSentences_example d)
qed

subsection \<open>The sentences of an example\<close>

text \<open>
  Claim C6. \<^verbatim>\<open>extractSentences\<close> makes exactly one sentence of
  \<^verbatim>\<open>Dr. Smith went to Washington, D.C. on Monday.\<close>: the periods after \<^verbatim>\<open>Dr\<close> and
  after \<^verbatim>\<open>C\<close> are protected as abbreviations (the single letters are in the table), the
  period after \<^verbatim>\<open>D\<close> has no white space after it, and only the last period splits.
\<close>

theorem extractSentences_drSmith:
  "protect drSmith = ''Dr<ABBR> Smith went to Washington, D.C<ABBR> on Monday.''
   \<and> markSplits (protect drSmith) = ''Dr<ABBR> Smith went to Washington, D.C<ABBR> on Monday.<SPLIT>''
   \<and> extractSentences ''Dr. Smith went to Washington, D.C. on Monday.''
       = [''Dr. Smith went to Washington, D.C. on Monday.'']"
  by code_simp

subsection \<open>Grades of examples\<close>

text \<open>The example of the specification for the grade: 150 words, 10 sentences, 220 syllables.\<close>

lemma calculateFleschKincaid_example:
  "calculateFleschKincaid 150 10 (Count 220) = Finite (fl (76 / 10))"
  by code_simp

text \<open>
  With 10 words, 1 sentence and 28 syllables the formula is 21.35 in exact arithmetic. The
  doubles of the source stay below it, and the grade is 21.3.
\<close>

lemma calculateFleschKincaid_tie:
  "calculateFleschKincaid 10 1 (Count 28) = Finite (fl (213 / 10))"
  by code_simp

text \<open>
  A sum of syllables that is no number gives the grade \<^verbatim>\<open>NaN\<close>, which is neither at
  most 6 nor at most 12: with 100 words or more the level is \<^verbatim>\<open>Hard\<close>.
\<close>

lemma calculateFleschKincaid_NonNumeric:
  "0 < totalWords \<Longrightarrow> 0 < totalSentences
     \<Longrightarrow> calculateFleschKincaid totalWords totalSentences NonNumeric = NaN"
  by (simp add: calculateFleschKincaid_def)

lemma classifyReadability_NaN:
  "100 \<le> wc \<Longrightarrow> classifyReadability avgLen ratio (Some NaN) wc = ''Hard''"
  by (simp add: classifyReadability_def Let_def)

end
